theory Spec2Isabelle
  imports Main
begin

section \<open>ProcessGroupNCCL.hpp: the continuation future FutureNCCL\<close>

text \<open>
  The header \<^verbatim>\<open>torch/lib/c10d/ProcessGroupNCCL.hpp\<close> defines the class
  \<^verbatim>\<open>FutureNCCL\<close> inline and declares the rest of \<^verbatim>\<open>ProcessGroupNCCL\<close>.
  The host code is embedded as functions on an explicit world: the work the host has
  issued on every device stream, the current stream of every device, and the counters
  of the stream pool and of the events created so far.
\<close>

subsection \<open>Values, exceptions, streams and events\<close>

text \<open>\<^verbatim>\<open>at::IValue\<close>: only the distinction \<^verbatim>\<open>isNone()\<close> matters to the class.\<close>

datatype 'v IValue = INone | IVal 'v

fun isNone :: "'v IValue \<Rightarrow> bool" where
  "isNone INone = True"
| "isNone (IVal v) = False"

text \<open>
  What the host code can throw. \<^verbatim>\<open>TORCH_INTERNAL_ASSERT\<close> and
  \<^verbatim>\<open>C10_THROW_ERROR\<close> throw a \<^verbatim>\<open>c10::Error\<close>, \<^verbatim>\<open>FutureError\<close> is the type
  of the error slot; all three derive from \<^verbatim>\<open>std::exception\<close>, as does
  \<open>StdException\<close>, any other exception of that family with its \<^verbatim>\<open>what()\<close> text.
  \<open>OtherThrown\<close> is a thrown object that is not a \<^verbatim>\<open>std::exception\<close>.
\<close>

datatype exn =
    InternalAssertFailed string
  | C10Error string
  | FutureError string
  | StdException string
  | OtherThrown

text \<open>
  The handler \<^verbatim>\<open>catch (const std::exception& e)\<close> with \<^verbatim>\<open>e.what()\<close>: the text of
  an exception the handler matches, \<open>None\<close> for one it lets through. The macros that
  build the text of a \<^verbatim>\<open>c10::Error\<close> are not part of the header; the message given
  to the macro stands for it.
\<close>

fun std_what :: "exn \<Rightarrow> string option" where
  "std_what (InternalAssertFailed m) = Some m"
| "std_what (C10Error m) = Some m"
| "std_what (FutureError m) = Some m"
| "std_what (StdException m) = Some m"
| "std_what OtherThrown = None"

type_synonym DeviceIndex = int

datatype CUDAStream = CUDAStream (stream_device: DeviceIndex) (stream_id: nat)

type_synonym CUDAEvent = nat

text \<open>The work issued on a stream: a kernel, a wait on a marker, the recording of a marker.\<close>

datatype 'k stream_op = Kernel 'k | WaitEvent CUDAEvent | RecordEvent CUDAEvent

record 'k world =
  queues :: "CUDAStream \<Rightarrow> 'k stream_op list"
  current_stream :: "DeviceIndex \<Rightarrow> CUDAStream"
  current_device :: DeviceIndex
  pool_next :: nat
  event_next :: nat

definition enqueue :: "CUDAStream \<Rightarrow> 'k stream_op list \<Rightarrow> 'k world \<Rightarrow> 'k world" where
  "enqueue s ops w = w\<lparr>queues := (queues w)(s := queues w s @ ops)\<rparr>"

text \<open>
  Modelled from the spec: \<^verbatim>\<open>at::cuda::CUDAEvent::block\<close> and \<^verbatim>\<open>record\<close> are not
  in the header. \<open>block\<close> "makes that stream wait on this future's marker", \<open>record\<close>
  "records a new marker on that stream".
\<close>

definition CUDAEvent_block :: "CUDAEvent \<Rightarrow> CUDAStream \<Rightarrow> 'k world \<Rightarrow> 'k world" where
  "CUDAEvent_block ev stream w = enqueue stream [WaitEvent ev] w"

definition CUDAEvent_record :: "CUDAEvent \<Rightarrow> CUDAStream \<Rightarrow> 'k world \<Rightarrow> 'k world" where
  "CUDAEvent_record ev stream w = enqueue stream [RecordEvent ev] w"

text \<open>
  Modelled from the spec: \<^verbatim>\<open>at::cuda::getStreamFromPool\<close> is not in the header;
  \<open>then\<close> "obtains a fresh device execution stream": the pool hands out, for the
  device asked for, a stream it has not handed out before.
\<close>

definition getStreamFromPool :: "DeviceIndex \<Rightarrow> 'k world \<Rightarrow> CUDAStream \<times> 'k world" where
  "getStreamFromPool device w =
     (CUDAStream device (pool_next w), w\<lparr>pool_next := Suc (pool_next w)\<rparr>)"

text \<open>
  Modelled from the spec: \<^verbatim>\<open>at::cuda::getCurrentCUDAStream\<close> is not in the header;
  it gives "the current device stream" of the device asked for.
\<close>

definition getCurrentCUDAStream :: "DeviceIndex \<Rightarrow> 'k world \<Rightarrow> CUDAStream" where
  "getCurrentCUDAStream device w = current_stream w device"

text \<open>
  \<^verbatim>\<open>std::make_shared<std::vector<at::cuda::CUDAEvent>>(n)\<close>: a new vector of \<open>n\<close>
  events that nothing else refers to. The vector is shared by pointer and never resized
  by the class, so a future holds the list of the events' handles.
\<close>

definition make_events :: "nat \<Rightarrow> 'k world \<Rightarrow> CUDAEvent list \<times> 'k world" where
  "make_events n w = ([event_next w ..< event_next w + n], w\<lparr>event_next := event_next w + n\<rparr>)"

text \<open>
  Modelled from the spec: \<^verbatim>\<open>c10::OptionalStreamGuard\<close> is not in the header;
  "every callback execution is pinned to a stream". Entering the guard makes the
  stream's device the current device and the stream the current stream of that device,
  and remembers what they were; leaving it (at the end of the scope, also when an
  exception unwinds it) puts both back.
\<close>

definition guard_enter :: "CUDAStream \<Rightarrow> 'k world \<Rightarrow> (DeviceIndex \<times> CUDAStream) \<times> 'k world" where
  "guard_enter stream w =
     ((current_device w, current_stream w (stream_device stream)),
      w\<lparr>current_stream := (current_stream w)(stream_device stream := stream),
        current_device := stream_device stream\<rparr>)"

definition guard_exit :: "DeviceIndex \<times> CUDAStream \<Rightarrow> CUDAStream \<Rightarrow> 'k world \<Rightarrow> 'k world" where
  "guard_exit saved stream w =
     w\<lparr>current_stream := (current_stream w)(stream_device stream := snd saved),
       current_device := fst saved\<rparr>"

subsection \<open>FutureNCCL\<close>

text \<open>
  The members \<^verbatim>\<open>value_\<close>, \<^verbatim>\<open>deviceIndex_\<close>, \<^verbatim>\<open>cudaEvents_\<close> and
  \<^verbatim>\<open>error_\<close>; a name cannot end in an underscore here, so each carries \<open>_m\<close>.
  The error slot holds the text of its \<^verbatim>\<open>FutureError\<close>. The members are private
  and both constructors insist on a list of one marker, so \<^verbatim>\<open>(*cudaEvents_)[0]\<close>,
  here \<open>cudaEvents_m f ! 0\<close>, is the marker of the future.
\<close>

record 'v FutureNCCL =
  value_m :: "'v IValue"
  deviceIndex_m :: DeviceIndex
  cudaEvents_m :: "CUDAEvent list"
  error_m :: "string option"

text \<open>A host call returns a result or throws, and leaves the world as it made it.\<close>

type_synonym ('a, 'k) host = "'k world \<Rightarrow> (exn + 'a) \<times> 'k world"

definition ctor_assert_msg :: string where
  "ctor_assert_msg = ''FutureNCCL only supports single-process single-device mode.''"

text \<open>The constructor that takes the value.\<close>

definition FutureNCCL_ctor_value ::
  "'v IValue \<Rightarrow> DeviceIndex \<Rightarrow> CUDAEvent list \<Rightarrow> exn + 'v FutureNCCL" where
  "FutureNCCL_ctor_value v deviceIndex cudaEvents =
     (if length cudaEvents = 1
      then Inr \<lparr>value_m = v, deviceIndex_m = deviceIndex, cudaEvents_m = cudaEvents, error_m = None\<rparr>
      else Inl (InternalAssertFailed ctor_assert_msg))"

text \<open>The constructor used by \<open>then\<close>: the value stays empty.\<close>

definition FutureNCCL_ctor ::
  "DeviceIndex \<Rightarrow> CUDAEvent list \<Rightarrow> exn + 'v FutureNCCL" where
  "FutureNCCL_ctor deviceIndex cudaEvents =
     (if length cudaEvents = 1
      then Inr \<lparr>value_m = INone, deviceIndex_m = deviceIndex, cudaEvents_m = cudaEvents, error_m = None\<rparr>
      else Inl (InternalAssertFailed ctor_assert_msg))"

definition wait :: "'v FutureNCCL \<Rightarrow> (unit, 'k) host" where
  "wait f w =
     (case error_m f of
        Some m \<Rightarrow> (Inl (FutureError m), w)
      | None \<Rightarrow>
          (let stream = getCurrentCUDAStream (deviceIndex_m f) w
           in (Inr (), CUDAEvent_block (cudaEvents_m f ! 0) stream w)))"

definition markCompleted_assert_msg :: string where
  "markCompleted_assert_msg =
     ''Attempting to set value of a FutureNCCL which has a value.'' @
     ''FutureNCCL's value was internally set to NCCL collective's '' @
     ''outputs or the return value of the callback.''"

definition markCompleted :: "'v FutureNCCL \<Rightarrow> 'v IValue \<Rightarrow> exn + 'v FutureNCCL" where
  "markCompleted f v =
     (if isNone (value_m f) then Inr (f\<lparr>value_m := v\<rparr>)
      else Inl (InternalAssertFailed markCompleted_assert_msg))"

definition setError :: "'v FutureNCCL \<Rightarrow> string \<Rightarrow> 'v FutureNCCL" where
  "setError f err = f\<lparr>error_m := Some err\<rparr>"

definition hasValue :: "'v FutureNCCL \<Rightarrow> bool" where
  "hasValue f = (\<not> isNone (value_m f))"

definition value_assert_msg :: string where
  "value_assert_msg = ''FutureNCCL's value is None.''"

definition value' :: "'v FutureNCCL \<Rightarrow> ('v IValue, 'k) host" where
  "value' f w =
     (if \<not> hasValue f then (Inl (InternalAssertFailed value_assert_msg), w)
      else case wait f w of
             (Inl e, w') \<Rightarrow> (Inl e, w')
           | (Inr u, w') \<Rightarrow> (Inr (value_m f), w'))"

definition constValue :: "'v FutureNCCL \<Rightarrow> ('v IValue, 'k) host" where
  "constValue f w =
     (if \<not> hasValue f then (Inl (InternalAssertFailed value_assert_msg), w)
      else case wait f w of
             (Inl e, w') \<Rightarrow> (Inl e, w')
           | (Inr u, w') \<Rightarrow> (Inr (value_m f), w'))"

text \<open>
  \<open>addCallbackWithStream\<close>: the callback is a closure; what it leaves in the variables
  it captured by reference is its result here. When the callback throws, the guard is
  unwound and the marker is not recorded.
\<close>

definition addCallbackWithStream ::
  "'v FutureNCCL \<Rightarrow> ('r, 'k) host \<Rightarrow> CUDAStream \<Rightarrow> CUDAEvent list \<Rightarrow> ('r, 'k) host" where
  "addCallbackWithStream f callback stream thenFutCudaEvents w =
     (let w1 = CUDAEvent_block (cudaEvents_m f ! 0) stream w;
          (saved, w2) = guard_enter stream w1
      in case callback w2 of
           (Inl e, w3) \<Rightarrow> (Inl e, guard_exit saved stream w3)
         | (Inr r, w3) \<Rightarrow>
             (Inr r, guard_exit saved stream (CUDAEvent_record (thenFutCudaEvents ! 0) stream w3)))"

definition addCallback_msg :: string where
  "addCallback_msg = ''FutureNCCL uses addCallbackWithStream instead of addCallback.''"

definition addCallback :: "'v FutureNCCL \<Rightarrow> ('r, 'k) host \<Rightarrow> (unit, 'k) host" where
  "addCallback f callback w = (Inl (C10Error addCallback_msg), w)"

text \<open>
  The closure that \<open>then\<close> hands to \<open>addCallbackWithStream\<close>: it runs the user's
  callback and completes the new future \<open>fut\<close> with its result, or sets the error of
  \<open>fut\<close> when a \<^verbatim>\<open>std::exception\<close> comes out of the \<^verbatim>\<open>try\<close> block.
\<close>

definition then_closure :: "'v FutureNCCL \<Rightarrow> ('v IValue, 'k) host \<Rightarrow> ('v FutureNCCL, 'k) host" where
  "then_closure fut cb w =
     (case cb w of
        (Inr v, w') \<Rightarrow>
          (case markCompleted fut v of
             Inr fut' \<Rightarrow> (Inr fut', w')
           | Inl e \<Rightarrow>
               (case std_what e of
                  Some m \<Rightarrow> (Inr (setError fut m), w')
                | None \<Rightarrow> (Inl e, w')))
      | (Inl e, w') \<Rightarrow>
          (case std_what e of
             Some m \<Rightarrow> (Inr (setError fut m), w')
           | None \<Rightarrow> (Inl e, w')))"

text \<open>\<open>then\<close>; its second parameter, the type, is not used by the body.\<close>

definition then' :: "'v FutureNCCL \<Rightarrow> ('v IValue, 'k) host \<Rightarrow> ('v FutureNCCL, 'k) host" where
  "then' f callback w =
     (let (stream, w1) = getStreamFromPool (deviceIndex_m f) w;
          (thenFutCudaEvents, w2) = make_events 1 w1
      in case FutureNCCL_ctor (deviceIndex_m f) thenFutCudaEvents of
           Inl e \<Rightarrow> (Inl e, w2)
         | Inr fut \<Rightarrow>
             addCallbackWithStream f (then_closure fut callback) stream thenFutCudaEvents w2)"

text \<open>\<^verbatim>\<open>cudaError_t\<close>, as far as \<open>completed\<close> tells its values apart.\<close>

datatype cudaError_t = cudaSuccess | cudaErrorNotReady | cudaErrorOther nat

text \<open>
  \<open>completed\<close>; \<^verbatim>\<open>cudaEventQuery\<close> belongs to the device runtime and is a parameter.
\<close>

definition completed :: "(CUDAEvent \<Rightarrow> cudaError_t) \<Rightarrow> 'v FutureNCCL \<Rightarrow> bool" where
  "completed cudaEventQuery f =
     (if error_m f \<noteq> None then True
      else (let ret = cudaEventQuery (cudaEvents_m f ! 0)
            in ret \<noteq> cudaErrorNotReady \<or> ret = cudaSuccess))"

subsection \<open>Callers and callbacks\<close>

text \<open>
  Callbacks. \<open>kernel_callback\<close> launches the kernels \<open>ks\<close> on the current stream
  of the current device and then returns or throws \<open>outcome\<close>; \<open>launch_on\<close>
  launches them on a stream that it names, whatever the current stream is;
  \<open>read_then_launch\<close> reads the value of the future it was attached to and then
  launches on the current stream, as a callback that works on the collective's output
  does. \<open>on_stream device cb\<close> holds of every callback that, called with \<open>device\<close>
  current, does nothing to the world but issue work on the current stream of that device.
\<close>

definition launch :: "'k list \<Rightarrow> 'k world \<Rightarrow> 'k world" where
  "launch ks w = enqueue (getCurrentCUDAStream (current_device w) w) (map Kernel ks) w"

definition kernel_callback :: "'k list \<Rightarrow> exn + 'a \<Rightarrow> ('a, 'k) host" where
  "kernel_callback ks outcome w = (outcome, launch ks w)"

definition launch_on :: "CUDAStream \<Rightarrow> 'k list \<Rightarrow> exn + 'a \<Rightarrow> ('a, 'k) host" where
  "launch_on stream ks outcome w = (outcome, enqueue stream (map Kernel ks) w)"

definition read_then_launch :: "'v FutureNCCL \<Rightarrow> 'k list \<Rightarrow> ('v IValue, 'k) host" where
  "read_then_launch parent ks w =
     (case value' parent w of
        (Inl e, w') \<Rightarrow> (Inl e, w')
      | (Inr v, w') \<Rightarrow> (Inr v, launch ks w'))"

definition on_stream :: "DeviceIndex \<Rightarrow> ('a, 'k) host \<Rightarrow> bool" where
  "on_stream device cb =
     (\<forall>w. current_device w = device \<longrightarrow>
          (\<exists>ops. snd (cb w) = enqueue (getCurrentCUDAStream device w) ops w))"

text \<open>
  The world in which \<open>then'\<close> calls the callback: the new stream and the new event
  are taken, the new stream waits on the future's marker and the guard is entered.
\<close>

definition then_callback_world :: "'v FutureNCCL \<Rightarrow> 'k world \<Rightarrow> 'k world" where
  "then_callback_world f w =
     (let (stream, w1) = getStreamFromPool (deviceIndex_m f) w;
          (thenFutCudaEvents, w2) = make_events 1 w1
      in snd (guard_enter stream (CUDAEvent_block (cudaEvents_m f ! 0) stream w2)))"

text \<open>
  A caller's chain \<^verbatim>\<open>f1 = f0->then(cb1); f2 = f1->then(cb2); ...\<close>: the futures
  \<open>f0, f1, ..., fN\<close>, or the exception that ended the chain.
\<close>

fun then_chain ::
  "'v FutureNCCL \<Rightarrow> ('v IValue, 'k) host list \<Rightarrow> ('v FutureNCCL list, 'k) host" where
  "then_chain f [] w = (Inr [f], w)"
| "then_chain f (cb # cbs) w =
     (case then' f cb w of
        (Inl e, w') \<Rightarrow> (Inl e, w')
      | (Inr f', w') \<Rightarrow>
          (case then_chain f' cbs w' of
             (Inl e, w'') \<Rightarrow> (Inl e, w'')
           | (Inr fs, w'') \<Rightarrow> (Inr (f # fs), w'')))"

text \<open>
  A world and a future to run examples in. A collective on device 0 has been issued on
  stream 1 of the pool and marker 0 recorded behind it; stream 0 of each device is
  current. \<open>future0 v\<close> is the future of that work: its value \<open>v\<close>, marker 0.
\<close>

definition world0 :: "'k world" where
  "world0 = \<lparr>queues = (\<lambda>s. [])(CUDAStream 0 1 := [RecordEvent 0]),
             current_stream = (\<lambda>d. CUDAStream d 0),
             current_device = 0, pool_next = 2, event_next = 1\<rparr>"

definition future0 :: "'v \<Rightarrow> 'v FutureNCCL" where
  "future0 v = \<lparr>value_m = IVal v, deviceIndex_m = 0, cudaEvents_m = [0], error_m = None\<rparr>"

subsection \<open>The device\<close>

text \<open>
  Modelled from the spec: the device runtime that executes the streams is not in the
  header. A stream executes its work in the order of issue; a marker "becomes satisfied
  once the stream reaches that point"; a stream that waits on a marker goes on only when
  the marker is satisfied. \<open>pc d s\<close> counts the operations of stream \<open>s\<close> that
  have run. A schedule names the stream that advances at each step; \<open>dev_run\<close> is
  \<open>None\<close> for a schedule the device cannot follow.
\<close>

record device =
  pc :: "CUDAStream \<Rightarrow> nat"
  satisfied :: "CUDAEvent set"

definition advance :: "CUDAStream \<Rightarrow> device \<Rightarrow> device" where
  "advance s d = d\<lparr>pc := (pc d)(s := Suc (pc d s))\<rparr>"

definition dev_step ::
  "(CUDAStream \<Rightarrow> 'k stream_op list) \<Rightarrow> CUDAStream \<Rightarrow> device \<Rightarrow> device option" where
  "dev_step Q s d =
     (if pc d s < length (Q s) then
        (case Q s ! pc d s of
           Kernel k \<Rightarrow> Some (advance s d)
         | RecordEvent e \<Rightarrow> Some (advance s (d\<lparr>satisfied := insert e (satisfied d)\<rparr>))
         | WaitEvent e \<Rightarrow> if e \<in> satisfied d then Some (advance s d) else None)
      else None)"

fun dev_run ::
  "(CUDAStream \<Rightarrow> 'k stream_op list) \<Rightarrow> CUDAStream list \<Rightarrow> device \<Rightarrow> device option" where
  "dev_run Q [] d = Some d"
| "dev_run Q (s # sched) d =
     (case dev_step Q s d of None \<Rightarrow> None | Some d' \<Rightarrow> dev_run Q sched d')"

definition device0 :: device where
  "device0 = \<lparr>pc = (\<lambda>s. 0), satisfied = {}\<rparr>"

subsection \<open>ProcessGroupNCCL and WorkNCCL\<close>

text \<open>
  The header declares the process group and its work handle and defines none of their
  member functions. From the header: the name of the environment variable, the member
  initialiser \<^verbatim>\<open>bool blockingWait_ = false\<close> of both classes, and the members below.
\<close>

definition NCCL_BLOCKING_WAIT :: string where
  "NCCL_BLOCKING_WAIT = ''NCCL_BLOCKING_WAIT''"

record ProcessGroupNCCL =
  blockingWait_m :: bool
  opTimeout_m :: nat

record WorkNCCL =
  work_devices_m :: "DeviceIndex list"
  work_cudaEvents_m :: "CUDAEvent list"
  work_blockingWait_m :: bool
  work_opTimeout_m :: nat

text \<open>The members as their initialisers leave them, before the constructor's body runs.\<close>

definition ProcessGroupNCCL_init :: "nat \<Rightarrow> ProcessGroupNCCL" where
  "ProcessGroupNCCL_init opTimeout = \<lparr>blockingWait_m = False, opTimeout_m = opTimeout\<rparr>"

text \<open>
  Modelled from the spec: the body of \<^verbatim>\<open>parseNcclBlockingWait\<close> and the constructor
  of the process group are not in the header. "An environment flag selects blocking-wait
  behavior process-wide at construction time; absent, non-blocking (device-side wait) is
  the default." The header says of the function that it "reads the NCCL_BLOCKING_WAIT
  environment variable and sets blockingWait_ accordingly". Which texts of the variable
  mean on, off or an error is said nowhere: \<open>flag_value\<close> is a parameter.
\<close>

definition parseNcclBlockingWait ::
  "(string \<Rightarrow> string option) \<Rightarrow> (string \<Rightarrow> exn + bool) \<Rightarrow> ProcessGroupNCCL
     \<Rightarrow> exn + ProcessGroupNCCL" where
  "parseNcclBlockingWait getenv flag_value pg =
     (case getenv NCCL_BLOCKING_WAIT of
        None \<Rightarrow> Inr pg
      | Some text \<Rightarrow>
          (case flag_value text of
             Inl e \<Rightarrow> Inl e
           | Inr b \<Rightarrow> Inr (pg\<lparr>blockingWait_m := b\<rparr>)))"

definition ProcessGroupNCCL_ctor ::
  "(string \<Rightarrow> string option) \<Rightarrow> (string \<Rightarrow> exn + bool) \<Rightarrow> nat \<Rightarrow> exn + ProcessGroupNCCL" where
  "ProcessGroupNCCL_ctor getenv flag_value opTimeout =
     parseNcclBlockingWait getenv flag_value (ProcessGroupNCCL_init opTimeout)"

text \<open>
  Modelled from the spec: \<^verbatim>\<open>initWork\<close>, \<^verbatim>\<open>WorkNCCL::synchronizeStreams\<close> and
  \<^verbatim>\<open>WorkNCCL::wait\<close> are declared only. The work handle has one marker per device
  and a "clone of blockingWait_ from ProcessGroupNCCL" (the header's words). Its
  \<open>wait\<close>, "if a blocking-wait mode is configured, actively blocks the calling thread";
  "if not in blocking mode, performs the equivalent of having each device's current
  stream wait on this handle's markers (a device-side wait, not a host-side block) and
  returns immediately". How the host blocks is a parameter; the answer of the wait that
  does not block, which is said nowhere, is taken to be true.
\<close>

definition initWork :: "ProcessGroupNCCL \<Rightarrow> DeviceIndex list \<Rightarrow> 'k world \<Rightarrow> WorkNCCL \<times> 'k world" where
  "initWork pg devices w =
     (let (events, w') = make_events (length devices) w
      in (\<lparr>work_devices_m = devices, work_cudaEvents_m = events,
           work_blockingWait_m = blockingWait_m pg, work_opTimeout_m = opTimeout_m pg\<rparr>, w'))"

definition synchronizeStreams :: "WorkNCCL \<Rightarrow> 'k world \<Rightarrow> 'k world" where
  "synchronizeStreams work w =
     fold (\<lambda>(device, ev) w'. CUDAEvent_block ev (getCurrentCUDAStream device w') w')
          (zip (work_devices_m work) (work_cudaEvents_m work)) w"

definition WorkNCCL_wait :: "(WorkNCCL \<Rightarrow> (bool, 'k) host) \<Rightarrow> WorkNCCL \<Rightarrow> (bool, 'k) host" where
  "WorkNCCL_wait host_block work w =
     (if work_blockingWait_m work then host_block work w
      else (Inr True, synchronizeStreams work w))"

text \<open>
  Modelled from the spec: \<^verbatim>\<open>send\<close>, \<^verbatim>\<open>recv\<close> and \<^verbatim>\<open>recvAnysource\<close> are
  declared only, under the header's comment "Unsupported Ops". "Point-to-point
  send/receive and receive-from-any-source are explicitly unsupported in this core and
  must report a capability error", raised synchronously; "no attempt is made to degrade
  or emulate them through collectives already present".
\<close>

datatype pg_error = CapabilityError string

definition send :: "'t list \<Rightarrow> int \<Rightarrow> int \<Rightarrow> 'k world \<Rightarrow> (pg_error + WorkNCCL) \<times> 'k world" where
  "send tensors dstRank tag w = (Inl (CapabilityError ''send''), w)"

definition recv :: "'t list \<Rightarrow> int \<Rightarrow> int \<Rightarrow> 'k world \<Rightarrow> (pg_error + WorkNCCL) \<times> 'k world" where
  "recv tensors srcRank tag w = (Inl (CapabilityError ''recv''), w)"

definition recvAnysource :: "'t list \<Rightarrow> int \<Rightarrow> 'k world \<Rightarrow> (pg_error + WorkNCCL) \<times> 'k world" where
  "recvAnysource tensors tag w = (Inl (CapabilityError ''recvAnysource''), w)"

section \<open>The device respects a wait\<close>

lemma satisfied_mono:
  "dev_run Q sched d0 = Some d \<Longrightarrow> satisfied d0 \<subseteq> satisfied d"
proof (induction sched arbitrary: d0)
  case Nil
  then show ?case by simp
next
  case (Cons s sched)
  then obtain d1 where st: "dev_step Q s d0 = Some d1" and run: "dev_run Q sched d1 = Some d"
    by (auto split: option.splits)
  from st have "satisfied d0 \<subseteq> satisfied d1"
    by (auto simp: dev_step_def advance_def split: if_splits stream_op.splits)
  with Cons.IH [OF run] show ?case by blast
qed

text \<open>
  Once a stream has gone past a wait that it had not passed at the start, the marker
  waited on is satisfied.
\<close>

lemma wait_respected:
  assumes "Q s ! p = WaitEvent e" and "p < length (Q s)" and "pc d0 s \<le> p"
    and "dev_run Q sched d0 = Some d" and "p < pc d s"
  shows "e \<in> satisfied d"
  using assms(3-5)
proof (induction sched arbitrary: d0)
  case Nil
  then show ?case by simp
next
  case (Cons s' sched)
  then obtain d1 where st: "dev_step Q s' d0 = Some d1" and run: "dev_run Q sched d1 = Some d"
    by (auto split: option.splits)
  show ?case
  proof (cases "pc d1 s \<le> p")
    case True
    then show ?thesis using Cons.IH [OF _ run] Cons.prems by simp
  next
    case False
    have same: "s' = s"
    proof (rule ccontr)
      assume "s' \<noteq> s"
      with st have "pc d1 s = pc d0 s"
        by (auto simp: dev_step_def advance_def split: if_splits stream_op.splits)
      with False Cons.prems(1) show False by simp
    qed
    from st same have "pc d1 s = Suc (pc d0 s)"
      by (auto simp: dev_step_def advance_def split: if_splits stream_op.splits)
    with False Cons.prems(1) have at: "pc d0 s = p" by simp
    with st same assms(1) have "e \<in> satisfied d1"
      by (auto simp: dev_step_def advance_def split: if_splits)
    with satisfied_mono [OF run] show ?thesis by blast
  qed
qed

lemma wait_in_prefix:
  assumes "take (Suc p) q = q0 @ [WaitEvent e]" and "length q0 = p"
  shows "q ! p = WaitEvent e \<and> p < length q"
proof -
  from assms have "length (take (Suc p) q) = Suc p" by simp
  then have lt: "p < length q" by (simp add: min_def split: if_splits)
  have "q ! p = take (Suc p) q ! p" by simp
  also have "\<dots> = WaitEvent e" using assms by (simp add: nth_append)
  finally show ?thesis using lt by simp
qed

section \<open>What \<open>then\<close> does to the world\<close>

lemma then_callback_world_eq:
  "then_callback_world f w =
     w\<lparr>queues := (queues w)(CUDAStream (deviceIndex_m f) (pool_next w) :=
                  queues w (CUDAStream (deviceIndex_m f) (pool_next w)) @ [WaitEvent (cudaEvents_m f ! 0)]),
       current_stream := (current_stream w)(deviceIndex_m f := CUDAStream (deviceIndex_m f) (pool_next w)),
       current_device := deviceIndex_m f,
       pool_next := Suc (pool_next w),
       event_next := Suc (event_next w)\<rparr>"
  by (simp add: then_callback_world_def getStreamFromPool_def make_events_def guard_enter_def
      CUDAEvent_block_def enqueue_def)

lemma then'_unfold:
  "then' f cb w =
     (let s = CUDAStream (deviceIndex_m f) (pool_next w);
          saved = (current_device w, current_stream w (deviceIndex_m f));
          fut = \<lparr>value_m = INone, deviceIndex_m = deviceIndex_m f,
                 cudaEvents_m = [event_next w], error_m = None\<rparr>
      in case then_closure fut cb (then_callback_world f w) of
           (Inl e, w3) \<Rightarrow> (Inl e, guard_exit saved s w3)
         | (Inr r, w3) \<Rightarrow> (Inr r, guard_exit saved s (CUDAEvent_record (event_next w) s w3)))"
  by (simp add: then'_def then_callback_world_def getStreamFromPool_def make_events_def
      FutureNCCL_ctor_def addCallbackWithStream_def guard_enter_def CUDAEvent_block_def
      enqueue_def Let_def split: prod.splits sum.splits)

lemma then_closure_result:
  "fst (then_closure fut cb w) =
     (case fst (cb w) of
        Inr v \<Rightarrow>
          (if isNone (value_m fut) then Inr (fut\<lparr>value_m := v\<rparr>)
           else Inr (fut\<lparr>error_m := Some markCompleted_assert_msg\<rparr>))
      | Inl e \<Rightarrow> (case std_what e of Some m \<Rightarrow> Inr (fut\<lparr>error_m := Some m\<rparr>) | None \<Rightarrow> Inl e))"
  by (cases "cb w")
     (auto simp: then_closure_def markCompleted_def setError_def split: sum.splits option.splits)

lemma then_closure_world: "snd (then_closure fut cb w) = snd (cb w)"
  by (cases "cb w")
     (auto simp: then_closure_def markCompleted_def setError_def split: sum.splits option.splits)

lemma then'_result:
  fixes f :: "'b FutureNCCL" and w :: "'a world"
  shows "fst (then' f cb w) =
     (case fst (cb (then_callback_world f w)) of
        Inr v \<Rightarrow> Inr \<lparr>value_m = v, deviceIndex_m = deviceIndex_m f,
                      cudaEvents_m = [event_next w], error_m = None\<rparr>
      | Inl e \<Rightarrow>
          (case std_what e of
             Some m \<Rightarrow> Inr \<lparr>value_m = INone, deviceIndex_m = deviceIndex_m f,
                            cudaEvents_m = [event_next w], error_m = Some m\<rparr>
           | None \<Rightarrow> Inl e))"
proof -
  let ?fut = "\<lparr>value_m = INone, deviceIndex_m = deviceIndex_m f,
                 cudaEvents_m = [event_next w], error_m = None\<rparr> :: 'b FutureNCCL"
  let ?wc = "then_callback_world f w"
  have "fst (then' f cb w) = fst (then_closure ?fut cb ?wc)"
    by (cases "then_closure ?fut cb ?wc") (auto simp: then'_unfold Let_def split: sum.splits)
  then show ?thesis
    by (simp add: then_closure_result split: sum.splits option.splits)
qed

lemma then'_world:
  fixes f :: "'b FutureNCCL" and w :: "'a world"
  shows "snd (then' f cb w) =
     (let s = CUDAStream (deviceIndex_m f) (pool_next w);
          saved = (current_device w, current_stream w (deviceIndex_m f));
          w3 = snd (cb (then_callback_world f w))
      in case fst (then' f cb w) of
           Inl e \<Rightarrow> guard_exit saved s w3
         | Inr r \<Rightarrow> guard_exit saved s (CUDAEvent_record (event_next w) s w3))"
proof -
  let ?fut = "\<lparr>value_m = INone, deviceIndex_m = deviceIndex_m f,
                 cudaEvents_m = [event_next w], error_m = None\<rparr> :: 'b FutureNCCL"
  let ?wc = "then_callback_world f w"
  show ?thesis
    using then_closure_world [of ?fut cb ?wc]
    by (cases "then_closure ?fut cb ?wc") (auto simp: then'_unfold Let_def split: sum.splits)
qed


lemma then'_new_future:
  fixes f :: "'b FutureNCCL" and w :: "'a world"
  assumes "then' f cb w = (Inr f', w')"
  shows "cudaEvents_m f' = [event_next w]" and "deviceIndex_m f' = deviceIndex_m f"
proof -
  from assms have "fst (then' f cb w) = Inr f'" by simp
  then show "cudaEvents_m f' = [event_next w]" and "deviceIndex_m f' = deviceIndex_m f"
    by (auto simp: then'_result split: sum.splits option.splits)
qed

lemma then'_on_stream_at:
  fixes f :: "'b FutureNCCL" and w :: "'a world"
  assumes "on_stream (deviceIndex_m f) cb" and "then' f cb w = (Inr f', w')"
  shows "\<exists>ops. snd (cb (then_callback_world f w)) =
                 enqueue (CUDAStream (deviceIndex_m f) (pool_next w)) ops (then_callback_world f w) \<and>
              w' = w\<lparr>queues := (queues w)(CUDAStream (deviceIndex_m f) (pool_next w) :=
                        queues w (CUDAStream (deviceIndex_m f) (pool_next w)) @
                        WaitEvent (cudaEvents_m f ! 0) # ops @ [RecordEvent (event_next w)]),
                    pool_next := Suc (pool_next w), event_next := Suc (event_next w)\<rparr>"
proof -
  let ?wc = "then_callback_world f w"
  let ?s = "CUDAStream (deviceIndex_m f) (pool_next w)"
  have "current_device ?wc = deviceIndex_m f"
    and cur: "getCurrentCUDAStream (deviceIndex_m f) ?wc = ?s"
    by (simp_all add: then_callback_world_eq getCurrentCUDAStream_def)
  with assms(1) obtain ops where ops: "snd (cb ?wc) = enqueue ?s ops ?wc"
    unfolding on_stream_def by metis
  from assms(2) have r: "fst (then' f cb w) = Inr f'" and w': "w' = snd (then' f cb w)"
    by simp_all
  have "w' = w\<lparr>queues := (queues w)(?s := queues w ?s @
                        WaitEvent (cudaEvents_m f ! 0) # ops @ [RecordEvent (event_next w)]),
                    pool_next := Suc (pool_next w), event_next := Suc (event_next w)\<rparr>"
    unfolding w' then'_world r
    by (simp add: ops [unfolded then_callback_world_eq] then_callback_world_eq Let_def
        enqueue_def guard_exit_def CUDAEvent_record_def)
  with ops show ?thesis by blast
qed

text \<open>
  A chain of calls: each call works on a stream of its own, numbered from the pool's
  counter, makes a marker of its own, numbered from the counter of the events, and
  leaves the other streams as they were.
\<close>

lemma then_chain_sites:
  fixes f :: "'b FutureNCCL" and w :: "'a world"
  assumes "\<forall>cb\<in>set cbs. on_stream (deviceIndex_m f) cb"
    and "then_chain f cbs w = (Inr fs, wN)"
  shows "length fs = Suc (length cbs) \<and> fs ! 0 = f \<and>
         (\<forall>s. stream_device s \<noteq> deviceIndex_m f \<or> stream_id s < pool_next w
              \<longrightarrow> queues wN s = queues w s) \<and>
         (\<forall>i<length cbs. cudaEvents_m (fs ! Suc i) = [event_next w + i]) \<and>
         (\<forall>i<length cbs. \<exists>ops wc.
            getCurrentCUDAStream (current_device wc) wc =
              CUDAStream (deviceIndex_m f) (pool_next w + i) \<and>
            queues wc (CUDAStream (deviceIndex_m f) (pool_next w + i)) =
              queues w (CUDAStream (deviceIndex_m f) (pool_next w + i)) @
              [WaitEvent (cudaEvents_m (fs ! i) ! 0)] \<and>
            snd ((cbs ! i) wc) =
              enqueue (CUDAStream (deviceIndex_m f) (pool_next w + i)) ops wc \<and>
            queues wN (CUDAStream (deviceIndex_m f) (pool_next w + i)) =
              queues w (CUDAStream (deviceIndex_m f) (pool_next w + i)) @
              WaitEvent (cudaEvents_m (fs ! i) ! 0) # ops @
              [RecordEvent (cudaEvents_m (fs ! Suc i) ! 0)])"
  using assms
proof (induction cbs arbitrary: f w fs)
  case Nil
  then show ?case by auto
next
  case (Cons cb cbs)
  let ?dev = "deviceIndex_m f"
  let ?s0 = "CUDAStream ?dev (pool_next w)"
  let ?wc = "then_callback_world f w"
  from Cons.prems(2) obtain f' w1 fs' where
    t: "then' f cb w = (Inr f', w1)" and c: "then_chain f' cbs w1 = (Inr fs', wN)"
    and fs: "fs = f # fs'"
    by (auto split: prod.splits sum.splits)
  from Cons.prems(1) have on: "on_stream ?dev cb" and ons: "\<forall>cb\<in>set cbs. on_stream ?dev cb"
    by simp_all
  from then'_on_stream_at [OF on t] obtain ops where
    ops: "snd (cb ?wc) = enqueue ?s0 ops ?wc" and
    w1: "w1 = w\<lparr>queues := (queues w)(?s0 := queues w ?s0 @
                        WaitEvent (cudaEvents_m f ! 0) # ops @ [RecordEvent (event_next w)]),
                    pool_next := Suc (pool_next w), event_next := Suc (event_next w)\<rparr>"
    by blast
  from then'_new_future [OF t]
  have ev: "cudaEvents_m f' = [event_next w]" and dev: "deviceIndex_m f' = ?dev"
    by simp_all
  from ons have ons': "\<forall>cb\<in>set cbs. on_stream (deviceIndex_m f') cb" by (simp add: dev)
  note IH = Cons.IH [OF ons' c, unfolded dev]
  from IH have len: "length fs' = Suc (length cbs)" and hd: "fs' ! 0 = f'"
    by blast+
  from IH have frame: "queues wN s = queues w1 s"
    if "stream_device s \<noteq> ?dev \<or> stream_id s < pool_next w1" for s
    using that by blast
  from IH have evs: "cudaEvents_m (fs' ! Suc i) = [event_next w1 + i]"
    if "i < length cbs" for i
    using that by blast
  from IH have sites: "\<exists>ops wc.
            getCurrentCUDAStream (current_device wc) wc = CUDAStream ?dev (pool_next w1 + i) \<and>
            queues wc (CUDAStream ?dev (pool_next w1 + i)) =
              queues w1 (CUDAStream ?dev (pool_next w1 + i)) @
              [WaitEvent (cudaEvents_m (fs' ! i) ! 0)] \<and>
            snd ((cbs ! i) wc) = enqueue (CUDAStream ?dev (pool_next w1 + i)) ops wc \<and>
            queues wN (CUDAStream ?dev (pool_next w1 + i)) =
              queues w1 (CUDAStream ?dev (pool_next w1 + i)) @
              WaitEvent (cudaEvents_m (fs' ! i) ! 0) # ops @
              [RecordEvent (cudaEvents_m (fs' ! Suc i) ! 0)]"
    if "i < length cbs" for i
    using that by blast
  have p1: "pool_next w1 = Suc (pool_next w)" by (simp add: w1)
  have e1: "event_next w1 = Suc (event_next w)" by (simp add: w1)
  have q1: "\<And>s. s \<noteq> ?s0 \<Longrightarrow> queues w1 s = queues w s" by (simp add: w1)
  have "length fs = Suc (length (cb # cbs))" by (simp add: fs len)
  moreover have "fs ! 0 = f" by (simp add: fs)
  moreover have "\<forall>s. stream_device s \<noteq> ?dev \<or> stream_id s < pool_next w
              \<longrightarrow> queues wN s = queues w s"
  proof (intro allI impI)
    fix s assume a: "stream_device s \<noteq> ?dev \<or> stream_id s < pool_next w"
    then have "s \<noteq> ?s0" by auto
    moreover from a have "stream_device s \<noteq> ?dev \<or> stream_id s < pool_next w1"
      by (auto simp: p1)
    ultimately show "queues wN s = queues w s" using frame q1 by simp
  qed
  moreover have "\<forall>i<length (cb # cbs). cudaEvents_m (fs ! Suc i) = [event_next w + i]"
  proof (intro allI impI)
    fix i assume i: "i < length (cb # cbs)"
    show "cudaEvents_m (fs ! Suc i) = [event_next w + i]"
    proof (cases i)
      case 0
      then show ?thesis by (simp add: fs hd ev)
    next
      case (Suc j)
      with i have "j < length cbs" by simp
      from evs [OF this] show ?thesis by (simp add: Suc fs e1)
    qed
  qed
  moreover have "\<forall>i<length (cb # cbs). \<exists>ops wc.
            getCurrentCUDAStream (current_device wc) wc = CUDAStream ?dev (pool_next w + i) \<and>
            queues wc (CUDAStream ?dev (pool_next w + i)) =
              queues w (CUDAStream ?dev (pool_next w + i)) @
              [WaitEvent (cudaEvents_m (fs ! i) ! 0)] \<and>
            snd (((cb # cbs) ! i) wc) = enqueue (CUDAStream ?dev (pool_next w + i)) ops wc \<and>
            queues wN (CUDAStream ?dev (pool_next w + i)) =
              queues w (CUDAStream ?dev (pool_next w + i)) @
              WaitEvent (cudaEvents_m (fs ! i) ! 0) # ops @
              [RecordEvent (cudaEvents_m (fs ! Suc i) ! 0)]"
  proof (intro allI impI)
    fix i assume i: "i < length (cb # cbs)"
    show "\<exists>ops wc.
            getCurrentCUDAStream (current_device wc) wc = CUDAStream ?dev (pool_next w + i) \<and>
            queues wc (CUDAStream ?dev (pool_next w + i)) =
              queues w (CUDAStream ?dev (pool_next w + i)) @
              [WaitEvent (cudaEvents_m (fs ! i) ! 0)] \<and>
            snd (((cb # cbs) ! i) wc) = enqueue (CUDAStream ?dev (pool_next w + i)) ops wc \<and>
            queues wN (CUDAStream ?dev (pool_next w + i)) =
              queues w (CUDAStream ?dev (pool_next w + i)) @
              WaitEvent (cudaEvents_m (fs ! i) ! 0) # ops @
              [RecordEvent (cudaEvents_m (fs ! Suc i) ! 0)]"
    proof (cases i)
      case 0
      have "queues wN ?s0 = queues w1 ?s0" using frame [of ?s0] by (simp add: p1)
      then have a: "queues wN ?s0 = queues w ?s0 @ WaitEvent (cudaEvents_m f ! 0) #
          ops @ [RecordEvent (cudaEvents_m f' ! 0)]"
        by (simp add: w1 ev)
      have b: "getCurrentCUDAStream (current_device ?wc) ?wc = ?s0"
        by (simp add: then_callback_world_eq getCurrentCUDAStream_def)
      have c: "queues ?wc ?s0 = queues w ?s0 @ [WaitEvent (cudaEvents_m f ! 0)]"
        by (simp add: then_callback_world_eq)
      from a b c ops show ?thesis
        unfolding 0 fs by (intro exI [of _ ops] exI [of _ ?wc]) (simp add: hd)
    next
      case (Suc j)
      with i have j: "j < length cbs" by simp
      have ne: "CUDAStream ?dev (pool_next w1 + j) \<noteq> ?s0" by (simp add: p1)
      from sites [OF j] q1 [OF ne] show ?thesis by (simp add: Suc fs p1)
    qed
  qed
  ultimately show ?case by blast
qed

text \<open>What every call of \<open>then'\<close> does, whatever the callback.\<close>

lemma then'_pins_callback:
  fixes f :: "'b FutureNCCL" and w :: "'a world"
  shows "getCurrentCUDAStream (current_device (then_callback_world f w)) (then_callback_world f w) =
           CUDAStream (deviceIndex_m f) (pool_next w)"
    and "queues (then_callback_world f w) (CUDAStream (deviceIndex_m f) (pool_next w)) =
           queues w (CUDAStream (deviceIndex_m f) (pool_next w)) @ [WaitEvent (cudaEvents_m f ! 0)]"
    and "pool_next (then_callback_world f w) = Suc (pool_next w)"
    and "event_next (then_callback_world f w) = Suc (event_next w)"
    and "then' f cb w = (Inr f', w') \<Longrightarrow> cudaEvents_m f' = [event_next w]"
    and "then' f cb w = (Inr f', w') \<Longrightarrow>
           queues w' (CUDAStream (deviceIndex_m f) (pool_next w)) =
           queues (snd (cb (then_callback_world f w))) (CUDAStream (deviceIndex_m f) (pool_next w)) @
           [RecordEvent (event_next w)]"
proof -
  show "getCurrentCUDAStream (current_device (then_callback_world f w)) (then_callback_world f w) =
           CUDAStream (deviceIndex_m f) (pool_next w)"
    and "queues (then_callback_world f w) (CUDAStream (deviceIndex_m f) (pool_next w)) =
           queues w (CUDAStream (deviceIndex_m f) (pool_next w)) @ [WaitEvent (cudaEvents_m f ! 0)]"
    and "pool_next (then_callback_world f w) = Suc (pool_next w)"
    and "event_next (then_callback_world f w) = Suc (event_next w)"
    by (simp_all add: then_callback_world_eq getCurrentCUDAStream_def)
  assume t: "then' f cb w = (Inr f', w')"
  from then'_new_future [OF t] show "cudaEvents_m f' = [event_next w]" by simp
  from t have r: "fst (then' f cb w) = Inr f'" and w': "w' = snd (then' f cb w)"
    by simp_all
  show "queues w' (CUDAStream (deviceIndex_m f) (pool_next w)) =
           queues (snd (cb (then_callback_world f w))) (CUDAStream (deviceIndex_m f) (pool_next w)) @
           [RecordEvent (event_next w)]"
    unfolding w' then'_world r
    by (simp add: Let_def guard_exit_def CUDAEvent_record_def enqueue_def)
qed

section \<open>Evaluating examples\<close>

lemmas host_defs =
  then'_def addCallbackWithStream_def then_closure_def kernel_callback_def markCompleted_def
  setError_def getStreamFromPool_def make_events_def FutureNCCL_ctor_def guard_enter_def
  guard_exit_def launch_def enqueue_def CUDAEvent_block_def CUDAEvent_record_def
  getCurrentCUDAStream_def future0_def world0_def Let_def

lemma enqueue_nothing: "enqueue s [] w = w"
  by (simp add: enqueue_def)

lemma on_stream_kernel_callback: "on_stream device (kernel_callback ks outcome)"
  unfolding on_stream_def kernel_callback_def launch_def by auto

lemma on_stream_read_then_launch:
  fixes ks :: "'k list"
  assumes "deviceIndex_m parent = device"
  shows "on_stream device (read_then_launch parent ks)"
  unfolding on_stream_def
proof (intro allI impI)
  fix w :: "'k world"
  assume cur: "current_device w = device"
  let ?s = "getCurrentCUDAStream device w"
  show "\<exists>ops. snd (read_then_launch parent ks w) = enqueue ?s ops w"
  proof (cases "hasValue parent \<and> error_m parent = None")
    case True
    with assms cur have "snd (read_then_launch parent ks w) =
        enqueue ?s (WaitEvent (cudaEvents_m parent ! 0) # map Kernel ks) w"
      by (simp add: read_then_launch_def value'_def wait_def launch_def enqueue_def
          CUDAEvent_block_def getCurrentCUDAStream_def Let_def)
    then show ?thesis by blast
  next
    case False
    then have "snd (read_then_launch parent ks w) = w"
      by (auto simp: read_then_launch_def value'_def wait_def split: option.splits)
    then have "snd (read_then_launch parent ks w) = enqueue ?s [] w"
      by (simp add: enqueue_nothing)
    then show ?thesis by blast
  qed
qed

lemma pair_fstI: "fst x = a \<Longrightarrow> x = (a, snd x)"
  by (cases x) simp

lemma nth_in_prefix:
  assumes "take n q = q'" and "p < length q'"
  shows "q ! p = q' ! p \<and> p < length q"
proof -
  from assms have "p < length (take n q)" by simp
  then have lt: "p < n" "p < length q" by simp_all
  then have "take n q ! p = q ! p" by simp
  with assms(1) lt show ?thesis by simp
qed


text \<open>
  The links of a chain whose callbacks issue their work on the current stream: where the
  wait, the callback's work and the new marker sit, and that no schedule of the device
  passes the wait before the marker waited on is satisfied.
\<close>

lemma then_chain_link:
  fixes f0 :: "'v FutureNCCL" and w0 :: "'k world"
  assumes "\<forall>cb\<in>set cbs. on_stream (deviceIndex_m f0) cb"
    and "then_chain f0 cbs w0 = (Inr fs, wN)" and "i < length cbs"
  shows "fs ! 0 = f0 \<and> cudaEvents_m (fs ! Suc i) = [event_next w0 + i] \<and>
   (\<exists>ops wc.
     getCurrentCUDAStream (current_device wc) wc =
       CUDAStream (deviceIndex_m f0) (pool_next w0 + i) \<and>
     queues wc (CUDAStream (deviceIndex_m f0) (pool_next w0 + i)) =
       queues w0 (CUDAStream (deviceIndex_m f0) (pool_next w0 + i)) @
       [WaitEvent (cudaEvents_m (fs ! i) ! 0)] \<and>
     snd ((cbs ! i) wc) = enqueue (CUDAStream (deviceIndex_m f0) (pool_next w0 + i)) ops wc \<and>
     queues wN (CUDAStream (deviceIndex_m f0) (pool_next w0 + i)) =
       queues w0 (CUDAStream (deviceIndex_m f0) (pool_next w0 + i)) @
       WaitEvent (cudaEvents_m (fs ! i) ! 0) # ops @
       [RecordEvent (cudaEvents_m (fs ! Suc i) ! 0)] \<and>
     (\<forall>Q sched d0 d.
        take (length (queues wN (CUDAStream (deviceIndex_m f0) (pool_next w0 + i))))
             (Q (CUDAStream (deviceIndex_m f0) (pool_next w0 + i))) =
          queues wN (CUDAStream (deviceIndex_m f0) (pool_next w0 + i)) \<and>
        pc d0 (CUDAStream (deviceIndex_m f0) (pool_next w0 + i)) \<le>
          length (queues w0 (CUDAStream (deviceIndex_m f0) (pool_next w0 + i))) \<and>
        dev_run Q sched d0 = Some d \<and>
        length (queues w0 (CUDAStream (deviceIndex_m f0) (pool_next w0 + i))) <
          pc d (CUDAStream (deviceIndex_m f0) (pool_next w0 + i))
        \<longrightarrow> cudaEvents_m (fs ! i) ! 0 \<in> satisfied d))"
proof -
  let ?s = "CUDAStream (deviceIndex_m f0) (pool_next w0 + i)"
  let ?p = "length (queues w0 ?s)"
  let ?m = "cudaEvents_m (fs ! i) ! 0"
  note sites = then_chain_sites [OF assms(1,2)]
  from sites have hd: "fs ! 0 = f0" by blast
  from sites assms(3) have ev: "cudaEvents_m (fs ! Suc i) = [event_next w0 + i]" by blast
  from sites assms(3) obtain ops wc where
    cur: "getCurrentCUDAStream (current_device wc) wc = ?s"
    and qc: "queues wc ?s = queues w0 ?s @ [WaitEvent ?m]"
    and la: "snd ((cbs ! i) wc) = enqueue ?s ops wc"
    and qN: "queues wN ?s = queues w0 ?s @ WaitEvent ?m # ops @
       [RecordEvent (cudaEvents_m (fs ! Suc i) ! 0)]"
    by blast
  have dev: "?m \<in> satisfied d"
    if "take (length (queues wN ?s)) (Q ?s) = queues wN ?s" and "pc d0 ?s \<le> ?p"
      and "dev_run Q sched d0 = Some d" and "?p < pc d ?s"
    for Q :: "CUDAStream \<Rightarrow> 'k stream_op list" and sched d0 d
  proof -
    have "?p < length (queues wN ?s)" by (simp add: qN)
    from nth_in_prefix [OF that(1) this]
    have "Q ?s ! ?p = WaitEvent ?m" and "?p < length (Q ?s)" by (simp_all add: qN)
    then show ?thesis
      using wait_respected [of Q ?s ?p ?m d0 sched d] that by blast
  qed
  from hd ev cur qc la qN dev show ?thesis by blast
qed

section \<open>The claims\<close>

text \<open>
  C1, as amended. Every call of \<open>then'\<close>, whatever the callback, takes the next
  stream of the pool and a marker that did not exist before, and calls the callback when
  that stream has been made to wait on the future's marker and is the current stream;
  when the call returns a future, the new marker is recorded on that stream behind
  whatever the callback left there and is the marker of the returned future. In a chain
  \<open>f1 = then' g cb1\<close>, \<open>f2 = then' f1 cb2\<close>, ... whose callbacks issue their work
  on the current stream only, each call has a stream and a marker of its own, the work of
  its callback sits on its stream between the wait and the recording, and on every
  schedule of the device, also when more work is issued later, that stream goes past the
  wait, and so reaches the callback's work, only when the marker of the preceding future
  is satisfied.
\<close>

theorem then_chain_ordered:
  fixes f g :: "'v FutureNCCL" and w u :: "'k world"
  shows
  "(getCurrentCUDAStream (current_device (then_callback_world f w)) (then_callback_world f w) =
      CUDAStream (deviceIndex_m f) (pool_next w) \<and>
    queues (then_callback_world f w) (CUDAStream (deviceIndex_m f) (pool_next w)) =
      queues w (CUDAStream (deviceIndex_m f) (pool_next w)) @ [WaitEvent (cudaEvents_m f ! 0)] \<and>
    pool_next (then_callback_world f w) = Suc (pool_next w) \<and>
    event_next (then_callback_world f w) = Suc (event_next w) \<and>
    (\<forall>f' w'. then' f cb w = (Inr f', w') \<longrightarrow>
       cudaEvents_m f' = [event_next w] \<and>
       queues w' (CUDAStream (deviceIndex_m f) (pool_next w)) =
         queues (snd (cb (then_callback_world f w))) (CUDAStream (deviceIndex_m f) (pool_next w)) @
         [RecordEvent (event_next w)])) \<and>
   ((\<forall>c\<in>set cbs. on_stream (deviceIndex_m g) c) \<and>
    then_chain g cbs u = (Inr fs, wN) \<and> i < length cbs \<longrightarrow>
    fs ! 0 = g \<and> cudaEvents_m (fs ! Suc i) = [event_next u + i] \<and>
    (\<exists>ops wc.
       getCurrentCUDAStream (current_device wc) wc =
         CUDAStream (deviceIndex_m g) (pool_next u + i) \<and>
       queues wc (CUDAStream (deviceIndex_m g) (pool_next u + i)) =
         queues u (CUDAStream (deviceIndex_m g) (pool_next u + i)) @
         [WaitEvent (cudaEvents_m (fs ! i) ! 0)] \<and>
       snd ((cbs ! i) wc) = enqueue (CUDAStream (deviceIndex_m g) (pool_next u + i)) ops wc \<and>
       queues wN (CUDAStream (deviceIndex_m g) (pool_next u + i)) =
         queues u (CUDAStream (deviceIndex_m g) (pool_next u + i)) @
         WaitEvent (cudaEvents_m (fs ! i) ! 0) # ops @
         [RecordEvent (cudaEvents_m (fs ! Suc i) ! 0)] \<and>
       (\<forall>Q sched d0 d.
          take (length (queues wN (CUDAStream (deviceIndex_m g) (pool_next u + i))))
               (Q (CUDAStream (deviceIndex_m g) (pool_next u + i))) =
            queues wN (CUDAStream (deviceIndex_m g) (pool_next u + i)) \<and>
          pc d0 (CUDAStream (deviceIndex_m g) (pool_next u + i)) \<le>
            length (queues u (CUDAStream (deviceIndex_m g) (pool_next u + i))) \<and>
          dev_run Q sched d0 = Some d \<and>
          length (queues u (CUDAStream (deviceIndex_m g) (pool_next u + i))) <
            pc d (CUDAStream (deviceIndex_m g) (pool_next u + i))
          \<longrightarrow> cudaEvents_m (fs ! i) ! 0 \<in> satisfied d)))"
proof (intro conjI allI impI)
  show "getCurrentCUDAStream (current_device (then_callback_world f w)) (then_callback_world f w) =
      CUDAStream (deviceIndex_m f) (pool_next w)"
    and "queues (then_callback_world f w) (CUDAStream (deviceIndex_m f) (pool_next w)) =
      queues w (CUDAStream (deviceIndex_m f) (pool_next w)) @ [WaitEvent (cudaEvents_m f ! 0)]"
    and "pool_next (then_callback_world f w) = Suc (pool_next w)"
    and "event_next (then_callback_world f w) = Suc (event_next w)"
    by (rule then'_pins_callback)+
next
  fix f' w' assume "then' f cb w = (Inr f', w')"
  then show "cudaEvents_m f' = [event_next w]"
    and "queues w' (CUDAStream (deviceIndex_m f) (pool_next w)) =
         queues (snd (cb (then_callback_world f w))) (CUDAStream (deviceIndex_m f) (pool_next w)) @
         [RecordEvent (event_next w)]"
    by (rule then'_pins_callback)+
next
  assume a: "(\<forall>c\<in>set cbs. on_stream (deviceIndex_m g) c) \<and>
    then_chain g cbs u = (Inr fs, wN) \<and> i < length cbs"
  then have link: "fs ! 0 = g \<and> cudaEvents_m (fs ! Suc i) = [event_next u + i] \<and>
   (\<exists>ops wc.
     getCurrentCUDAStream (current_device wc) wc =
       CUDAStream (deviceIndex_m g) (pool_next u + i) \<and>
     queues wc (CUDAStream (deviceIndex_m g) (pool_next u + i)) =
       queues u (CUDAStream (deviceIndex_m g) (pool_next u + i)) @
       [WaitEvent (cudaEvents_m (fs ! i) ! 0)] \<and>
     snd ((cbs ! i) wc) = enqueue (CUDAStream (deviceIndex_m g) (pool_next u + i)) ops wc \<and>
     queues wN (CUDAStream (deviceIndex_m g) (pool_next u + i)) =
       queues u (CUDAStream (deviceIndex_m g) (pool_next u + i)) @
       WaitEvent (cudaEvents_m (fs ! i) ! 0) # ops @
       [RecordEvent (cudaEvents_m (fs ! Suc i) ! 0)] \<and>
     (\<forall>Q sched d0 d.
        take (length (queues wN (CUDAStream (deviceIndex_m g) (pool_next u + i))))
             (Q (CUDAStream (deviceIndex_m g) (pool_next u + i))) =
          queues wN (CUDAStream (deviceIndex_m g) (pool_next u + i)) \<and>
        pc d0 (CUDAStream (deviceIndex_m g) (pool_next u + i)) \<le>
          length (queues u (CUDAStream (deviceIndex_m g) (pool_next u + i))) \<and>
        dev_run Q sched d0 = Some d \<and>
        length (queues u (CUDAStream (deviceIndex_m g) (pool_next u + i))) <
          pc d (CUDAStream (deviceIndex_m g) (pool_next u + i))
        \<longrightarrow> cudaEvents_m (fs ! i) ! 0 \<in> satisfied d))"
    using then_chain_link [of cbs g u fs wN i] by blast
  from link show "fs ! 0 = g" by blast
  from link show "cudaEvents_m (fs ! Suc i) = [event_next u + i]" by blast
  from link show "\<exists>ops wc.
       getCurrentCUDAStream (current_device wc) wc =
         CUDAStream (deviceIndex_m g) (pool_next u + i) \<and>
       queues wc (CUDAStream (deviceIndex_m g) (pool_next u + i)) =
         queues u (CUDAStream (deviceIndex_m g) (pool_next u + i)) @
         [WaitEvent (cudaEvents_m (fs ! i) ! 0)] \<and>
       snd ((cbs ! i) wc) = enqueue (CUDAStream (deviceIndex_m g) (pool_next u + i)) ops wc \<and>
       queues wN (CUDAStream (deviceIndex_m g) (pool_next u + i)) =
         queues u (CUDAStream (deviceIndex_m g) (pool_next u + i)) @
         WaitEvent (cudaEvents_m (fs ! i) ! 0) # ops @
         [RecordEvent (cudaEvents_m (fs ! Suc i) ! 0)] \<and>
       (\<forall>Q sched d0 d.
          take (length (queues wN (CUDAStream (deviceIndex_m g) (pool_next u + i))))
               (Q (CUDAStream (deviceIndex_m g) (pool_next u + i))) =
            queues wN (CUDAStream (deviceIndex_m g) (pool_next u + i)) \<and>
          pc d0 (CUDAStream (deviceIndex_m g) (pool_next u + i)) \<le>
            length (queues u (CUDAStream (deviceIndex_m g) (pool_next u + i))) \<and>
          dev_run Q sched d0 = Some d \<and>
          length (queues u (CUDAStream (deviceIndex_m g) (pool_next u + i))) <
            pc d (CUDAStream (deviceIndex_m g) (pool_next u + i))
          \<longrightarrow> cudaEvents_m (fs ! i) ! 0 \<in> satisfied d)"
    by blast
qed

theorem then_chain_ordered_witness:
  "fst (then_chain (future0 (1::nat))
          [read_then_launch (future0 1) [10::nat], kernel_callback [20] (Inr (IVal 3))] world0) =
     Inr [future0 1,
          \<lparr>value_m = IVal 1, deviceIndex_m = 0, cudaEvents_m = [1], error_m = None\<rparr>,
          \<lparr>value_m = IVal 3, deviceIndex_m = 0, cudaEvents_m = [2], error_m = None\<rparr>] \<and>
   queues (snd (then_chain (future0 (1::nat))
          [read_then_launch (future0 1) [10::nat], kernel_callback [20] (Inr (IVal 3))] world0))
     (CUDAStream 0 2) = [WaitEvent 0, WaitEvent 0, Kernel 10, RecordEvent 1] \<and>
   queues (snd (then_chain (future0 (1::nat))
          [read_then_launch (future0 1) [10::nat], kernel_callback [20] (Inr (IVal 3))] world0))
     (CUDAStream 0 3) = [WaitEvent 1, Kernel 20, RecordEvent 2] \<and>
   map_option (\<lambda>d. (pc d (CUDAStream 0 3), 1 \<in> satisfied d))
     (dev_run (queues (snd (then_chain (future0 (1::nat))
          [read_then_launch (future0 1) [10::nat], kernel_callback [20] (Inr (IVal 3))] world0)))
        [CUDAStream 0 1, CUDAStream 0 2, CUDAStream 0 2, CUDAStream 0 2, CUDAStream 0 2,
         CUDAStream 0 3, CUDAStream 0 3] device0) = Some (2, True) \<and>
   dev_run (queues (snd (then_chain (future0 (1::nat))
          [read_then_launch (future0 1) [10::nat], kernel_callback [20] (Inr (IVal 3))] world0)))
        [CUDAStream 0 1, CUDAStream 0 3] device0 = None \<and>
   map_sum id cudaEvents_m
     (fst (then' (future0 (1::nat)) (read_then_launch (future0 1) [10::nat]) world0)) = Inr [1] \<and>
   queues (then_callback_world (future0 (1::nat)) (world0 :: nat world)) (CUDAStream 0 2) =
     [WaitEvent 0]"
proof -
  let ?cb1 = "read_then_launch (future0 (1::nat)) [10::nat] :: (nat IValue, nat) host"
  let ?cbs = "[?cb1, kernel_callback [20] (Inr (IVal 3))]"
  let ?fs = "[future0 (1::nat),
          \<lparr>value_m = IVal 1, deviceIndex_m = 0, cudaEvents_m = [1], error_m = None\<rparr>,
          \<lparr>value_m = IVal 3, deviceIndex_m = 0, cudaEvents_m = [2], error_m = None\<rparr>]"
  let ?wN = "snd (then_chain (future0 (1::nat)) ?cbs (world0 :: nat world))"
  let ?sched = "[CUDAStream 0 1, CUDAStream 0 2, CUDAStream 0 2, CUDAStream 0 2, CUDAStream 0 2,
         CUDAStream 0 3, CUDAStream 0 3]"
  let ?f1 = "\<lparr>value_m = IVal (1::nat), deviceIndex_m = 0, cudaEvents_m = [1], error_m = None\<rparr>"
  let ?w1 = "snd (then' (future0 (1::nat)) ?cb1 (world0 :: nat world))"
  have res: "fst (then_chain (future0 (1::nat)) ?cbs (world0 :: nat world)) = Inr ?fs"
    by (simp add: host_defs read_then_launch_def value'_def wait_def hasValue_def)
  have res1: "fst (then' (future0 (1::nat)) ?cb1 (world0 :: nat world)) = Inr ?f1"
    by (simp add: host_defs read_then_launch_def value'_def wait_def hasValue_def)
  define Q where "Q = queues ?wN"
  have q1: "Q (CUDAStream 0 (Suc 0)) = [RecordEvent 0]"
    and q2: "Q (CUDAStream 0 2) = [WaitEvent 0, WaitEvent 0, Kernel 10, RecordEvent 1]"
    and q3: "Q (CUDAStream 0 3) = [WaitEvent 1, Kernel 20, RecordEvent 2]"
    unfolding Q_def
    by (simp_all add: host_defs read_then_launch_def value'_def wait_def hasValue_def)
  obtain d where run: "dev_run Q ?sched device0 = Some d"
    and pc: "pc d (CUDAStream 0 3) = 2"
    by (simp add: q1 q2 q3 device0_def dev_step_def advance_def)
  have chain: "then_chain (future0 (1::nat)) ?cbs (world0 :: nat world) = (Inr ?fs, ?wN)"
    using res by (rule pair_fstI)
  have call: "then' (future0 (1::nat)) ?cb1 (world0 :: nat world) = (Inr ?f1, ?w1)"
    using res1 by (rule pair_fstI)
  have ons: "\<forall>c\<in>set ?cbs. on_stream (deviceIndex_m (future0 (1::nat))) c"
    by (simp add: on_stream_kernel_callback on_stream_read_then_launch)
  have i: "1 < length ?cbs" by simp
  note inst = then_chain_ordered [where f = "future0 (1::nat)" and w = "world0 :: nat world"
      and cb = ?cb1 and g = "future0 (1::nat)" and u = "world0 :: nat world" and cbs = ?cbs
      and fs = ?fs and wN = ?wN and i = 1]
  from inst ons chain i
  have dev: "\<forall>Q' sched d0 d.
        take (length (queues ?wN (CUDAStream (deviceIndex_m (future0 (1::nat))) (pool_next (world0 :: nat world) + 1))))
             (Q' (CUDAStream (deviceIndex_m (future0 (1::nat))) (pool_next (world0 :: nat world) + 1))) =
          queues ?wN (CUDAStream (deviceIndex_m (future0 (1::nat))) (pool_next (world0 :: nat world) + 1)) \<and>
        pc d0 (CUDAStream (deviceIndex_m (future0 (1::nat))) (pool_next (world0 :: nat world) + 1)) \<le>
          length (queues (world0 :: nat world) (CUDAStream (deviceIndex_m (future0 (1::nat))) (pool_next (world0 :: nat world) + 1))) \<and>
        dev_run Q' sched d0 = Some d \<and>
        length (queues (world0 :: nat world) (CUDAStream (deviceIndex_m (future0 (1::nat))) (pool_next (world0 :: nat world) + 1))) <
          pc d (CUDAStream (deviceIndex_m (future0 (1::nat))) (pool_next (world0 :: nat world) + 1))
        \<longrightarrow> cudaEvents_m (?fs ! 1) ! 0 \<in> satisfied d"
    by blast
  from inst call have new: "cudaEvents_m ?f1 = [event_next (world0 :: nat world)]"
    by blast
  from inst have wc: "queues (then_callback_world (future0 (1::nat)) (world0 :: nat world))
        (CUDAStream (deviceIndex_m (future0 (1::nat))) (pool_next (world0 :: nat world))) =
      queues (world0 :: nat world)
        (CUDAStream (deviceIndex_m (future0 (1::nat))) (pool_next (world0 :: nat world))) @
      [WaitEvent (cudaEvents_m (future0 (1::nat)) ! 0)]"
    by blast
  have s_eq: "CUDAStream (deviceIndex_m (future0 (1::nat))) (pool_next (world0 :: nat world) + 1) =
      CUDAStream 0 3"
    by (simp add: future0_def world0_def)
  have m_eq: "cudaEvents_m (?fs ! 1) ! 0 = 1" by simp
  have p_eq: "length (queues (world0 :: nat world) (CUDAStream 0 3)) = 0"
    by (simp add: world0_def)
  note dev' = dev [unfolded s_eq m_eq p_eq, folded Q_def]
  from dev' [rule_format, of Q device0 ?sched d] run pc
  have "1 \<in> satisfied d" by (simp add: device0_def)
  with run pc have c3: "map_option (\<lambda>d. (pc d (CUDAStream 0 3), 1 \<in> satisfied d))
     (dev_run Q ?sched device0) = Some (2, True)"
    by simp
  have c4: "dev_run Q [CUDAStream 0 1, CUDAStream 0 3] device0 = None"
    by (simp add: q1 q2 q3 device0_def dev_step_def advance_def)
  have c5: "map_sum id cudaEvents_m (fst (then' (future0 (1::nat)) ?cb1 (world0 :: nat world))) = Inr [1]"
    using res1 new by simp
  have c6: "queues (then_callback_world (future0 (1::nat)) (world0 :: nat world)) (CUDAStream 0 2) =
     [WaitEvent 0]"
    using wc by (simp add: future0_def world0_def)
  from res q2 q3 c3 c4 c5 c6 show ?thesis unfolding Q_def by blast
qed

text \<open>
  C1 as stated fails: \<open>then'\<close> accepts a callback that launches its kernel on another
  stream than the current one. In a chain of two calls whose second callback does so,
  the device can run that kernel at once, when the marker of the first call's future is
  not satisfied.
\<close>

theorem then_off_stream_counterexample:
  "fst (then_chain (future0 (1::nat))
          [kernel_callback [10::nat] (Inr (IVal 2)),
           launch_on (CUDAStream 0 0) [99] (Inr (IVal 3))] world0) =
     Inr [future0 1,
          \<lparr>value_m = IVal 2, deviceIndex_m = 0, cudaEvents_m = [1], error_m = None\<rparr>,
          \<lparr>value_m = IVal 3, deviceIndex_m = 0, cudaEvents_m = [2], error_m = None\<rparr>] \<and>
   queues (snd (then_chain (future0 (1::nat))
          [kernel_callback [10::nat] (Inr (IVal 2)),
           launch_on (CUDAStream 0 0) [99] (Inr (IVal 3))] world0))
     (CUDAStream 0 0) = [Kernel 99] \<and>
   queues (snd (then_chain (future0 (1::nat))
          [kernel_callback [10::nat] (Inr (IVal 2)),
           launch_on (CUDAStream 0 0) [99] (Inr (IVal 3))] world0))
     (CUDAStream 0 3) = [WaitEvent 1, RecordEvent 2] \<and>
   dev_run (queues (snd (then_chain (future0 (1::nat))
          [kernel_callback [10::nat] (Inr (IVal 2)),
           launch_on (CUDAStream 0 0) [99] (Inr (IVal 3))] world0)))
     [CUDAStream 0 0] device0 = Some (advance (CUDAStream 0 0) device0) \<and>
   pc (advance (CUDAStream 0 0) device0) (CUDAStream 0 0) = 1 \<and>
   1 \<notin> satisfied (advance (CUDAStream 0 0) device0)"
proof -
  let ?cbs = "[kernel_callback [10::nat] (Inr (IVal (2::nat))),
           launch_on (CUDAStream 0 0) [99] (Inr (IVal 3))]"
  let ?wN = "snd (then_chain (future0 (1::nat)) ?cbs (world0 :: nat world))"
  have res: "fst (then_chain (future0 (1::nat)) ?cbs (world0 :: nat world)) =
     Inr [future0 1,
          \<lparr>value_m = IVal 2, deviceIndex_m = 0, cudaEvents_m = [1], error_m = None\<rparr>,
          \<lparr>value_m = IVal 3, deviceIndex_m = 0, cudaEvents_m = [2], error_m = None\<rparr>]"
    by (simp add: host_defs launch_on_def)
  define Q where "Q = queues ?wN"
  have q0: "Q (CUDAStream 0 0) = [Kernel 99]"
    and q3: "Q (CUDAStream 0 3) = [WaitEvent 1, RecordEvent 2]"
    unfolding Q_def by (simp_all add: host_defs launch_on_def)
  have run: "dev_run Q [CUDAStream 0 0] device0 = Some (advance (CUDAStream 0 0) device0)"
    by (simp add: q0 device0_def dev_step_def)
  have pc: "pc (advance (CUDAStream 0 0) device0) (CUDAStream 0 0) = 1"
    and un: "1 \<notin> satisfied (advance (CUDAStream 0 0) device0)"
    by (simp_all add: advance_def device0_def)
  from res q0 q3 run pc un show ?thesis unfolding Q_def by blast
qed

text \<open>
  C2, as amended. When the callback throws a \<^verbatim>\<open>std::exception\<close>, \<open>then'\<close>
  returns a future without a value whose error slot holds the exception's text; on that
  future \<open>wait\<close> throws a \<^verbatim>\<open>FutureError\<close> with the text, and \<open>value'\<close>
  fails the assertion that the future has a value. An exception that is not a
  \<^verbatim>\<open>std::exception\<close> passes the handler and leaves \<open>then'\<close>.
\<close>

theorem then_captures_std_exception:
  fixes f :: "'v FutureNCCL" and w :: "'k world"
  shows
  "(fst (cb (then_callback_world f w)) = Inl e \<and> std_what e = Some m \<longrightarrow>
      fst (then' f cb w) =
        Inr \<lparr>value_m = INone, deviceIndex_m = deviceIndex_m f,
             cudaEvents_m = [event_next w], error_m = Some m\<rparr> \<and>
      (\<forall>f' w2. fst (then' f cb w) = Inr f' \<longrightarrow>
         error_m f' = Some m \<and>
         wait f' (w2 :: 'k world) = (Inl (FutureError m), w2) \<and>
         value' f' w2 = (Inl (InternalAssertFailed value_assert_msg), w2))) \<and>
   (fst (cb (then_callback_world f w)) = Inl e \<and> std_what e = None \<longrightarrow>
      fst (then' f cb w) = Inl e)"
  by (auto simp: then'_result wait_def value'_def hasValue_def)

theorem then_captures_std_exception_witness:
  "fst (then' (future0 (1::nat)) (kernel_callback [10::nat] (Inl (StdException ''boom''))) world0) =
     Inr \<lparr>value_m = INone, deviceIndex_m = 0, cudaEvents_m = [1], error_m = Some ''boom''\<rparr> \<and>
   wait \<lparr>value_m = INone :: nat IValue, deviceIndex_m = 0, cudaEvents_m = [1], error_m = Some ''boom''\<rparr>
       (world0 :: nat world) = (Inl (FutureError ''boom''), world0) \<and>
   value' \<lparr>value_m = INone :: nat IValue, deviceIndex_m = 0, cudaEvents_m = [1], error_m = Some ''boom''\<rparr>
       (world0 :: nat world) = (Inl (InternalAssertFailed value_assert_msg), world0) \<and>
   fst (then' (future0 (1::nat)) (kernel_callback [10::nat] (Inl OtherThrown)) world0) = Inl OtherThrown"
  using then_captures_std_exception [of "kernel_callback [10::nat] (Inl (StdException ''boom''))"
      "future0 (1::nat)" "world0 :: nat world" "StdException ''boom''" "''boom''"]
    then_captures_std_exception [of "kernel_callback [10::nat] (Inl OtherThrown)"
      "future0 (1::nat)" "world0 :: nat world" OtherThrown "''boom''"]
  by (simp add: kernel_callback_def future0_def world0_def)

text \<open>
  C2 as stated fails twice: after a callback has thrown a \<^verbatim>\<open>std::exception\<close>,
  \<open>value'\<close> on the returned future does not throw that error again but fails its
  assertion; and an exception of another kind leaves \<open>then'\<close>.
\<close>

theorem then_exception_counterexample:
  "fst (then' (future0 (1::nat)) (kernel_callback [10::nat] (Inl (StdException ''boom''))) world0) =
     Inr \<lparr>value_m = INone, deviceIndex_m = 0, cudaEvents_m = [1], error_m = Some ''boom''\<rparr> \<and>
   fst (value' \<lparr>value_m = INone :: nat IValue, deviceIndex_m = 0, cudaEvents_m = [1],
                 error_m = Some ''boom''\<rparr> (world0 :: nat world)) =
     Inl (InternalAssertFailed value_assert_msg) \<and>
   fst (then' (future0 (1::nat)) (kernel_callback [10::nat] (Inl OtherThrown)) world0) = Inl OtherThrown"
  by (simp add: host_defs value'_def hasValue_def)

text \<open>
  C3. \<open>value'\<close> and \<open>constValue\<close> return the held value only after the
  future's \<open>wait\<close>, in the world that \<open>wait\<close> left; an exception of \<open>wait\<close>
  is theirs; on a future without a value, one that was built without a value among them,
  they fail the assertion.
\<close>

theorem value_after_wait:
  "(value' f w = (Inr v, w') \<longrightarrow> hasValue f \<and> wait f w = (Inr (), w') \<and> v = value_m f) \<and>
   (hasValue f \<and> wait f w = (Inr (), w') \<longrightarrow> value' f w = (Inr (value_m f), w')) \<and>
   (hasValue f \<and> wait f w = (Inl e, w') \<longrightarrow> value' f w = (Inl e, w')) \<and>
   (\<not> hasValue f \<longrightarrow> value' f w = (Inl (InternalAssertFailed value_assert_msg), w)) \<and>
   (FutureNCCL_ctor dev evs = Inr f \<longrightarrow> \<not> hasValue f) \<and>
   constValue f w = value' f w"
  by (cases "wait f w")
     (auto simp: value'_def constValue_def FutureNCCL_ctor_def hasValue_def
       split: sum.splits if_splits)

theorem value_after_wait_witness:
  "fst (value' (future0 (1::nat)) (world0 :: nat world)) = Inr (IVal 1) \<and>
   queues (snd (value' (future0 (1::nat)) (world0 :: nat world))) (CUDAStream 0 0) = [WaitEvent 0] \<and>
   fst (constValue (future0 (1::nat)) (world0 :: nat world)) = Inr (IVal 1) \<and>
   fst (value' (setError (future0 (1::nat)) ''boom'') (world0 :: nat world)) = Inl (FutureError ''boom'') \<and>
   fst (value' \<lparr>value_m = INone :: nat IValue, deviceIndex_m = 0, cudaEvents_m = [1], error_m = None\<rparr>
          (world0 :: nat world)) = Inl (InternalAssertFailed value_assert_msg)"
  using value_after_wait [of "future0 (1::nat)" "world0 :: nat world" "IVal 1"
      "snd (wait (future0 (1::nat)) (world0 :: nat world))" "FutureError ''boom''" 0 "[1]"]
    value_after_wait [of "setError (future0 (1::nat)) ''boom''" "world0 :: nat world" "IVal 1"
      "world0 :: nat world" "FutureError ''boom''" 0 "[1]"]
    value_after_wait [of "\<lparr>value_m = INone :: nat IValue, deviceIndex_m = 0, cudaEvents_m = [1], error_m = None\<rparr>"
      "world0 :: nat world" "IVal 1" "world0 :: nat world" "FutureError ''boom''" 0 "[1]"]
  by (simp add: future0_def world0_def wait_def hasValue_def setError_def FutureNCCL_ctor_def
      getCurrentCUDAStream_def CUDAEvent_block_def enqueue_def)

text \<open>
  C4. \<open>completed\<close> is true exactly when an error was set on the future or the query
  of its marker answers anything but "not ready"; success is such an answer.
\<close>

theorem completed_iff:
  "completed cudaEventQuery f =
     (error_m f \<noteq> None \<or> cudaEventQuery (cudaEvents_m f ! 0) \<noteq> cudaErrorNotReady)"
  by (auto simp: completed_def Let_def)

theorem completed_iff_witness:
  "\<not> completed (\<lambda>ev. cudaErrorNotReady) (future0 (1::nat)) \<and>
   completed (\<lambda>ev. cudaSuccess) (future0 (1::nat)) \<and>
   completed (\<lambda>ev. cudaErrorOther 700) (future0 (1::nat)) \<and>
   completed (\<lambda>ev. cudaErrorNotReady) (setError (future0 (1::nat)) ''boom'')"
  using completed_iff [of "\<lambda>ev. cudaErrorNotReady" "future0 (1::nat)"]
    completed_iff [of "\<lambda>ev. cudaSuccess" "future0 (1::nat)"]
    completed_iff [of "\<lambda>ev. cudaErrorOther 700" "future0 (1::nat)"]
    completed_iff [of "\<lambda>ev. cudaErrorNotReady" "setError (future0 (1::nat)) ''boom''"]
  by (simp add: future0_def setError_def)

text \<open>
  C5. Without a captured error \<open>wait\<close> returns to the host at once, having made
  the current stream of the future's device wait on the marker: whatever that stream is
  given to do afterwards, the device runs it only when the marker is satisfied. With a
  captured error \<open>wait\<close> throws it and issues nothing.
\<close>

theorem wait_device_side:
  fixes f :: "'v FutureNCCL" and w :: "'k world"
  shows
  "(error_m f = None \<longrightarrow>
      wait f w = (Inr (), enqueue (getCurrentCUDAStream (deviceIndex_m f) w)
                            [WaitEvent (cudaEvents_m f ! 0)] w) \<and>
      (\<forall>Q sched d0 d.
         take (Suc (length (queues w (getCurrentCUDAStream (deviceIndex_m f) w))))
              (Q (getCurrentCUDAStream (deviceIndex_m f) w)) =
           queues (snd (wait f w)) (getCurrentCUDAStream (deviceIndex_m f) w) \<and>
         pc d0 (getCurrentCUDAStream (deviceIndex_m f) w) \<le>
           length (queues w (getCurrentCUDAStream (deviceIndex_m f) w)) \<and>
         dev_run Q sched d0 = Some d \<and>
         length (queues w (getCurrentCUDAStream (deviceIndex_m f) w)) <
           pc d (getCurrentCUDAStream (deviceIndex_m f) w)
         \<longrightarrow> cudaEvents_m f ! 0 \<in> satisfied d)) \<and>
   (error_m f = Some m \<longrightarrow> wait f w = (Inl (FutureError m), w))"
proof (intro conjI impI allI)
  assume "error_m f = None"
  then show "wait f w = (Inr (), enqueue (getCurrentCUDAStream (deviceIndex_m f) w)
                            [WaitEvent (cudaEvents_m f ! 0)] w)"
    by (simp add: wait_def CUDAEvent_block_def)
next
  fix Q :: "CUDAStream \<Rightarrow> 'k stream_op list" and sched d0 d
  let ?s = "getCurrentCUDAStream (deviceIndex_m f) w"
  let ?p = "length (queues w ?s)"
  assume none: "error_m f = None"
    and run: "take (Suc ?p) (Q ?s) = queues (snd (wait f w)) ?s \<and> pc d0 ?s \<le> ?p \<and>
         dev_run Q sched d0 = Some d \<and> ?p < pc d ?s"
  from none have "queues (snd (wait f w)) ?s = queues w ?s @ [WaitEvent (cudaEvents_m f ! 0)]"
    by (simp add: wait_def CUDAEvent_block_def enqueue_def Let_def)
  with run have "take (Suc ?p) (Q ?s) = queues w ?s @ [WaitEvent (cudaEvents_m f ! 0)]"
    by simp
  from wait_in_prefix [OF this refl]
  have "Q ?s ! ?p = WaitEvent (cudaEvents_m f ! 0)" and "?p < length (Q ?s)" by simp_all
  with run show "cudaEvents_m f ! 0 \<in> satisfied d"
    using wait_respected [of Q ?s ?p "cudaEvents_m f ! 0" d0 sched d] by blast
next
  assume "error_m f = Some m"
  then show "wait f w = (Inl (FutureError m), w)" by (simp add: wait_def)
qed

theorem wait_device_side_witness:
  "fst (wait (future0 (1::nat)) (world0 :: nat world)) = Inr () \<and>
   queues (snd (wait (future0 (1::nat)) (world0 :: nat world))) (CUDAStream 0 0) = [WaitEvent 0] \<and>
   map_option (\<lambda>d. (pc d (CUDAStream 0 0), 0 \<in> satisfied d))
     (dev_run ((queues (world0 :: nat world))(CUDAStream 0 0 := [WaitEvent 0, Kernel 5]))
        [CUDAStream 0 1, CUDAStream 0 0, CUDAStream 0 0] device0) = Some (2, True) \<and>
   dev_run ((queues (world0 :: nat world))(CUDAStream 0 0 := [WaitEvent 0, Kernel 5]))
        [CUDAStream 0 0] device0 = None \<and>
   wait (setError (future0 (1::nat)) ''boom'') (world0 :: nat world) =
     (Inl (FutureError ''boom''), world0)"
proof -
  let ?Q = "(queues (world0 :: nat world))(CUDAStream 0 0 := [WaitEvent 0, Kernel 5])"
  let ?sched = "[CUDAStream 0 1, CUDAStream 0 0, CUDAStream 0 0]"
  obtain d where run: "dev_run ?Q ?sched device0 = Some d" and pc: "pc d (CUDAStream 0 0) = 2"
    by (simp add: world0_def device0_def dev_step_def advance_def)
  have "\<forall>Q sched d0 d.
         take (Suc 0) (Q (CUDAStream 0 0)) = [WaitEvent 0 :: nat stream_op] \<and>
         pc d0 (CUDAStream 0 0) = 0 \<and> dev_run Q sched d0 = Some d \<and> 0 < pc d (CUDAStream 0 0)
         \<longrightarrow> 0 \<in> satisfied d"
    using wait_device_side [of "future0 (1::nat)" "world0 :: nat world" "''boom''"]
    by (simp add: future0_def world0_def wait_def getCurrentCUDAStream_def
        CUDAEvent_block_def enqueue_def)
  from this [rule_format, of ?Q device0 ?sched d] run pc have "0 \<in> satisfied d"
    by (simp add: world0_def device0_def)
  moreover have "dev_run ?Q [CUDAStream 0 0] device0 = None"
    by (simp add: world0_def device0_def dev_step_def advance_def)
  ultimately show ?thesis
    using run pc wait_device_side [of "setError (future0 (1::nat)) ''boom''" "world0 :: nat world" "''boom''"]
    by (simp add: future0_def setError_def world0_def wait_def getCurrentCUDAStream_def
        CUDAEvent_block_def enqueue_def)
qed

text \<open>
  C6, as amended. \<open>markCompleted\<close> stores the result in a future whose value is
  unset, and fails its assertion on a future that holds a value. After it has stored a
  result other than \<open>INone\<close>, every further call fails.
\<close>

theorem markCompleted_once:
  "(value_m f = INone \<longrightarrow> markCompleted f v = Inr (f\<lparr>value_m := v\<rparr>)) \<and>
   (value_m f \<noteq> INone \<longrightarrow>
      markCompleted f v = Inl (InternalAssertFailed markCompleted_assert_msg)) \<and>
   (markCompleted f v = Inr f1 \<and> v \<noteq> INone \<longrightarrow>
      markCompleted f1 v2 = Inl (InternalAssertFailed markCompleted_assert_msg))"
  by (cases "value_m f"; cases v) (auto simp: markCompleted_def)

theorem markCompleted_once_witness:
  "markCompleted \<lparr>value_m = INone, deviceIndex_m = 0, cudaEvents_m = [0], error_m = None\<rparr>
       (IVal (7::nat)) =
     Inr \<lparr>value_m = IVal 7, deviceIndex_m = 0, cudaEvents_m = [0], error_m = None\<rparr> \<and>
   markCompleted \<lparr>value_m = IVal 7, deviceIndex_m = 0, cudaEvents_m = [0], error_m = None\<rparr>
       (IVal (8::nat)) =
     Inl (InternalAssertFailed markCompleted_assert_msg)"
  using markCompleted_once
    [of "\<lparr>value_m = INone, deviceIndex_m = 0, cudaEvents_m = [0], error_m = None\<rparr>"
        "IVal (7::nat)"
        "\<lparr>value_m = IVal 7, deviceIndex_m = 0, cudaEvents_m = [0], error_m = None\<rparr>"
        "IVal 8"]
  by simp

text \<open>
  C6 as stated fails: a first call with the result \<open>INone\<close> succeeds and leaves the
  future unset, and a second call succeeds as well.
\<close>

theorem markCompleted_twice_counterexample:
  "markCompleted \<lparr>value_m = INone, deviceIndex_m = 0, cudaEvents_m = [0], error_m = None\<rparr>
       (INone :: nat IValue) =
     Inr \<lparr>value_m = INone, deviceIndex_m = 0, cudaEvents_m = [0], error_m = None\<rparr> \<and>
   markCompleted \<lparr>value_m = INone, deviceIndex_m = 0, cudaEvents_m = [0], error_m = None\<rparr>
       (IVal (7::nat)) =
     Inr \<lparr>value_m = IVal 7, deviceIndex_m = 0, cudaEvents_m = [0], error_m = None\<rparr>"
  by (simp add: markCompleted_def)

text \<open>
  C7. \<open>addCallback\<close> throws for every callback and does not run it.
  \<open>addCallbackWithStream\<close> runs the callback with the stream it was given as the
  current stream, \<open>then'\<close> with the stream it took from the pool.
\<close>

theorem addCallback_rejected:
  fixes f :: "'v FutureNCCL" and w :: "'k world" and cb :: "('r, 'k) host"
    and cb2 :: "('v IValue, 'k) host"
  shows
  "addCallback f cb w = (Inl (C10Error addCallback_msg), w) \<and>
   (\<exists>wc. getCurrentCUDAStream (current_device wc) wc = stream \<and>
         (\<forall>cb' :: ('r, 'k) host. fst (addCallbackWithStream f cb' stream evs w) = fst (cb' wc))) \<and>
   getCurrentCUDAStream (current_device (then_callback_world f w)) (then_callback_world f w) =
     fst (getStreamFromPool (deviceIndex_m f) w) \<and>
   fst (then' f cb2 w) =
     (case fst (cb2 (then_callback_world f w)) of
        Inr v \<Rightarrow> Inr \<lparr>value_m = v, deviceIndex_m = deviceIndex_m f,
                      cudaEvents_m = [event_next w], error_m = None\<rparr>
      | Inl e \<Rightarrow>
          (case std_what e of
             Some m \<Rightarrow> Inr \<lparr>value_m = INone, deviceIndex_m = deviceIndex_m f,
                            cudaEvents_m = [event_next w], error_m = Some m\<rparr>
           | None \<Rightarrow> Inl e))"
proof -
  let ?wc = "snd (guard_enter stream (CUDAEvent_block (cudaEvents_m f ! 0) stream w))"
  have a: "getCurrentCUDAStream (current_device ?wc) ?wc = stream"
    by (simp add: guard_enter_def getCurrentCUDAStream_def)
  have b: "fst (addCallbackWithStream f cb' stream evs w) = fst (cb' ?wc)"
    for cb' :: "('r, 'k) host"
    by (cases "cb' ?wc")
       (auto simp: addCallbackWithStream_def guard_enter_def Let_def split: sum.splits prod.splits)
  have c: "getCurrentCUDAStream (current_device (then_callback_world f w)) (then_callback_world f w) =
     fst (getStreamFromPool (deviceIndex_m f) w)"
    by (simp add: then_callback_world_eq getCurrentCUDAStream_def getStreamFromPool_def)
  from a b have "\<exists>wc. getCurrentCUDAStream (current_device wc) wc = stream \<and>
         (\<forall>cb' :: ('r, 'k) host. fst (addCallbackWithStream f cb' stream evs w) = fst (cb' wc))"
    by blast
  with c then'_result [of f cb2 w] show ?thesis
    by (simp add: addCallback_def)
qed

theorem addCallback_rejected_witness:
  "fst (addCallback (future0 (1::nat)) (kernel_callback [5::nat] (Inr ())) world0) =
     Inl (C10Error addCallback_msg) \<and>
   queues (snd (addCallback (future0 (1::nat)) (kernel_callback [5::nat] (Inr ())) world0))
     (CUDAStream 0 0) = [] \<and>
   fst (then' (future0 (1::nat)) (kernel_callback [5::nat] (Inr (IVal 2))) world0) =
     Inr \<lparr>value_m = IVal 2, deviceIndex_m = 0, cudaEvents_m = [1], error_m = None\<rparr>"
  using addCallback_rejected [of "future0 (1::nat)" "kernel_callback [5::nat] (Inr ())" world0
      "CUDAStream 0 3" "[1]" "kernel_callback [5::nat] (Inr (IVal 2))"]
  by (simp add: future0_def world0_def kernel_callback_def)

text \<open>
  C8. \<open>send\<close>, \<open>recv\<close> and \<open>recvAnysource\<close> report a capability error on
  every input, return no work handle and issue nothing on the device.
\<close>

theorem p2p_unsupported:
  "send tensors dstRank tag w = (Inl (CapabilityError ''send''), w) \<and>
   recv tensors srcRank tag w = (Inl (CapabilityError ''recv''), w) \<and>
   recvAnysource tensors tag w = (Inl (CapabilityError ''recvAnysource''), w) \<and>
   (\<forall>work. fst (send tensors dstRank tag w) \<noteq> Inr work \<and>
           fst (recv tensors srcRank tag w) \<noteq> Inr work \<and>
           fst (recvAnysource tensors tag w) \<noteq> Inr work)"
  by (simp add: send_def recv_def recvAnysource_def)

theorem p2p_unsupported_witness:
  "send [1::nat, 2] 1 0 (world0 :: nat world) = (Inl (CapabilityError ''send''), world0) \<and>
   recv [1::nat, 2] 0 0 (world0 :: nat world) = (Inl (CapabilityError ''recv''), world0) \<and>
   recvAnysource [1::nat, 2] 0 (world0 :: nat world) = (Inl (CapabilityError ''recvAnysource''), world0)"
  using p2p_unsupported [of "[1::nat, 2]" 1 0 "world0 :: nat world" 0]
  by simp

text \<open>
  C9. The constructor reads the flag: without the variable in the environment the
  process group is built with \<open>blockingWait_m\<close> false, so is its work, whose
  \<open>wait\<close> then makes the devices' current streams wait and does not block the host;
  with the variable, the flag is what its text says; nothing else in the environment
  matters.
\<close>

theorem blocking_wait_default:
  "(getenv NCCL_BLOCKING_WAIT = None \<longrightarrow>
      ProcessGroupNCCL_ctor getenv flag_value opTimeout = Inr (ProcessGroupNCCL_init opTimeout) \<and>
      \<not> blockingWait_m (ProcessGroupNCCL_init opTimeout) \<and>
      \<not> work_blockingWait_m (fst (initWork (ProcessGroupNCCL_init opTimeout) devices w)) \<and>
      WorkNCCL_wait host_block (fst (initWork (ProcessGroupNCCL_init opTimeout) devices w)) w' =
        (Inr True, synchronizeStreams (fst (initWork (ProcessGroupNCCL_init opTimeout) devices w)) w')) \<and>
   (getenv NCCL_BLOCKING_WAIT = Some text \<and> flag_value text = Inr b \<longrightarrow>
      ProcessGroupNCCL_ctor getenv flag_value opTimeout =
        Inr ((ProcessGroupNCCL_init opTimeout)\<lparr>blockingWait_m := b\<rparr>)) \<and>
   (getenv NCCL_BLOCKING_WAIT = getenv' NCCL_BLOCKING_WAIT \<longrightarrow>
      ProcessGroupNCCL_ctor getenv flag_value opTimeout =
      ProcessGroupNCCL_ctor getenv' flag_value opTimeout)"
  by (auto simp: ProcessGroupNCCL_ctor_def parseNcclBlockingWait_def ProcessGroupNCCL_init_def
      initWork_def make_events_def WorkNCCL_wait_def split: option.splits sum.splits)

theorem blocking_wait_default_witness:
  "map_sum id blockingWait_m (ProcessGroupNCCL_ctor (\<lambda>name. None) (\<lambda>text. Inr (text = ''1'')) 1800000) = Inr False \<and>
   map_sum id blockingWait_m
     (ProcessGroupNCCL_ctor (\<lambda>name. if name = ''NCCL_BLOCKING_WAIT'' then Some ''1'' else None)
        (\<lambda>text. Inr (text = ''1'')) 1800000) = Inr True \<and>
   fst (WorkNCCL_wait (\<lambda>work w. (Inl (StdException ''timeout''), w))
         (fst (initWork (ProcessGroupNCCL_init 1800000) [0, 1] (world0 :: nat world)))
         (snd (initWork (ProcessGroupNCCL_init 1800000) [0, 1] (world0 :: nat world)))) = Inr True \<and>
   queues (snd (WorkNCCL_wait (\<lambda>work w. (Inl (StdException ''timeout''), w))
         (fst (initWork (ProcessGroupNCCL_init 1800000) [0, 1] (world0 :: nat world)))
         (snd (initWork (ProcessGroupNCCL_init 1800000) [0, 1] (world0 :: nat world)))))
      (CUDAStream 1 0) = [WaitEvent 2]"
  using blocking_wait_default [of "\<lambda>name. None" "\<lambda>text. Inr (text = ''1'')" 1800000 "[0, 1]"
      "world0 :: nat world" "\<lambda>work w. (Inl (StdException ''timeout''), w)"
      "snd (initWork (ProcessGroupNCCL_init 1800000) [0, 1] (world0 :: nat world))"
      "''1''" True "\<lambda>name. None"]
    blocking_wait_default [of "\<lambda>name. if name = ''NCCL_BLOCKING_WAIT'' then Some ''1'' else None"
      "\<lambda>text. Inr (text = ''1'')" 1800000 "[0, 1]"
      "world0 :: nat world" "\<lambda>work w. (Inl (StdException ''timeout''), w)"
      "snd (initWork (ProcessGroupNCCL_init 1800000) [0, 1] (world0 :: nat world))"
      "''1''" True "\<lambda>name. None"]
  by (simp add: NCCL_BLOCKING_WAIT_def ProcessGroupNCCL_init_def initWork_def make_events_def
      world0_def synchronizeStreams_def CUDAEvent_block_def enqueue_def getCurrentCUDAStream_def
      upt_rec)

text \<open>
  C10. Both constructors succeed exactly on a list of one marker, which the future
  then carries; on any other list, the markers of a work handle on several devices among
  them, they fail the assertion.
\<close>

theorem ctor_single_marker:
  "(length evs = 1 \<longrightarrow>
      (\<exists>f. FutureNCCL_ctor_value v dev evs = Inr f \<and> cudaEvents_m f = evs \<and>
           length (cudaEvents_m f) = 1) \<and>
      (\<exists>g::'a FutureNCCL. FutureNCCL_ctor dev evs = Inr g \<and> cudaEvents_m g = evs \<and>
           length (cudaEvents_m g) = 1)) \<and>
   (length evs \<noteq> 1 \<longrightarrow>
      FutureNCCL_ctor_value v dev evs = Inl (InternalAssertFailed ctor_assert_msg) \<and>
      (FutureNCCL_ctor dev evs :: exn + 'a FutureNCCL) = Inl (InternalAssertFailed ctor_assert_msg))"
  by (simp add: FutureNCCL_ctor_value_def FutureNCCL_ctor_def)

theorem ctor_single_marker_witness:
  "FutureNCCL_ctor_value (IVal (7::nat)) 0 [3, 4] = Inl (InternalAssertFailed ctor_assert_msg) \<and>
   (FutureNCCL_ctor 0 [3, 4] :: exn + nat FutureNCCL) = Inl (InternalAssertFailed ctor_assert_msg) \<and>
   (FutureNCCL_ctor 0 [] :: exn + nat FutureNCCL) = Inl (InternalAssertFailed ctor_assert_msg) \<and>
   map_sum id cudaEvents_m (FutureNCCL_ctor_value (IVal (7::nat)) 0 [3]) = Inr [3] \<and>
   map_sum id cudaEvents_m (FutureNCCL_ctor 0 [3] :: exn + nat FutureNCCL) = Inr [3]"
  using ctor_single_marker [of "[3, 4]" "IVal (7::nat)" 0, where 'a = nat]
    ctor_single_marker [of "[]" "IVal (7::nat)" 0, where 'a = nat]
    ctor_single_marker [of "[3]" "IVal (7::nat)" 0, where 'a = nat]
  by auto

end
